theory Spec2Isabelle
  imports Complex_Main
begin

section \<open>The Blender preprocessing script, as a state-passing model\<close>

text \<open>
  \<^verbatim>\<open>PreprossingBlender.py\<close> drives Blender through \<^verbatim>\<open>bpy\<close>: it imports every
  GLB file of a folder, joins the mesh objects, decimates and welds the result, strips the
  image textures, renders one picture and writes one JSON file. The script owns no
  geometry algorithm of its own; the join, the decimation, the weld, the renderer, the file
  system and the path functions belong to Blender and to Python's library. They are the
  fields of the record \<open>host\<close> below, and every theorem holds for every host.

  Python floats are modelled as real numbers: the quotient of the decimation ratio and the
  rounding of the exporter are exact, and the infinities, NaN and the sign of zero do not
  exist. Arithmetic that Blender does in single precision is not redone here: the product
  of a matrix and a vector is a field of \<open>host\<close>.
\<close>

subsection \<open>Exceptions and results\<close>

datatype exn = TypeError string | AttributeError | RuntimeError | OSError | ZeroDivisionError

datatype 'a result = Return 'a | Raise exn

subsection \<open>Scene data\<close>

type_synonym vec3 = "real \<times> real \<times> real"
type_synonym vec4 = "real \<times> real \<times> real \<times> real"
type_synonym mat4 = "vec4 \<times> vec4 \<times> vec4 \<times> vec4"

datatype node_kind = TEX_IMAGE | BSDF_PRINCIPLED | OUTPUT_MATERIAL | OTHER_NODE string

record node =
  node_name :: string
  ntype :: node_kind

text \<open>
  A material: \<open>node_tree\<close> is \<open>None\<close> where Python's \<^verbatim>\<open>mat.node_tree\<close> is; every
  Blender material has a \<^verbatim>\<open>diffuse_color\<close>, so \<^verbatim>\<open>hasattr(mat, 'diffuse_color')\<close> is true.
\<close>

record material =
  mat_name :: string
  use_nodes :: bool
  node_tree :: "node list option"
  diffuse_color :: vec4

text \<open>
  Mesh data. The entries of \<open>vertices\<close> are the local coordinates \<^verbatim>\<open>vert.co\<close>; an entry
  \<open>None\<close> of \<open>materials\<close> is an empty material slot.
\<close>

record mesh =
  vertices :: "vec3 list"
  edges :: "(nat \<times> nat) list"
  polygons :: "nat list list"
  materials :: "material option list"

datatype obj_kind = MESH | CAMERA | LIGHT | EMPTY | OTHER_OBJECT string

text \<open>
  An object of \<^verbatim>\<open>bpy.data.objects\<close>. \<open>oid\<close> stands for the identity of the Python object;
  \<open>track_to\<close> is the target of its TRACK_TO constraint, if it has one. The field \<open>data\<close> is
  read for mesh objects only.
\<close>

record obj =
  oid :: nat
  oname :: string
  otype :: obj_kind
  select :: bool
  location :: vec3
  rotation_euler :: vec3
  scale :: vec3
  matrix_world :: mat4
  data :: mesh
  track_to :: "nat option"

subsection \<open>JSON documents and files\<close>

datatype json =
    JInt int
  | JFloat real
  | JString string
  | JList "json list"
  | JDict "(string \<times> json) list"

datatype file_content = Image | Json_text json

subsection \<open>The calls made into Blender\<close>

datatype action = SELECT | DESELECT

datatype mode = OBJECT | EDIT

text \<open>
  One constructor for each \<^verbatim>\<open>bpy.ops\<close> operator the script calls, with the arguments
  the script passes. \<open>Render_render\<close> also records what the renderer sees at that moment:
  the location of the scene camera, the location of the object it tracks, and the
  output path.
\<close>

datatype bpy_op =
    Object_select_all action
  | Object_delete
  | Import_scene_gltf string
  | Object_join
  | Object_mode_set mode
  | Mesh_select_mode string
  | Mesh_select_all action
  | Object_modifier_apply string
  | Mesh_remove_doubles real
  | Mesh_primitive_plane_add
  | Render_render "vec3 option" "vec3 option" string

record modifier =
  mod_name :: string
  mod_type :: string
  ratio :: real
  use_collapse_triangulate :: bool

subsection \<open>The world: scene, file system, call log and printed lines\<close>

record world =
  objects :: "obj list"
  active :: "nat option"
  scene_camera :: "nat option"
  render_filepath :: string
  dirs :: "string set"
  files :: "string \<rightharpoonup> file_content"
  ops :: "bpy_op list"
  out :: "string list"

subsection \<open>What Blender and the Python library provide\<close>

text \<open>
  \<^item> \<open>glob_glb d\<close>: the result of \<^verbatim>\<open>glob.glob(os.path.join(d, "*.glb"))\<close>;
  \<^item> \<open>path_join\<close>, \<open>base_name\<close>: \<^verbatim>\<open>os.path.join\<close> and
    \<^verbatim>\<open>os.path.splitext(os.path.basename(p))[0]\<close>;
  \<^item> \<open>gltf_import p\<close>: the objects the glTF importer adds for the file \<open>p\<close>, or \<open>None\<close>
    when the operator raises;
  \<^item> \<open>join_data a ms\<close>: the mesh data of the active object \<open>a\<close> after joining the selected
    mesh objects \<open>ms\<close> into it;
  \<^item> \<open>decimate r t m\<close>: the mesh after applying a collapse Decimate modifier with ratio \<open>r\<close>
    and triangulation flag \<open>t\<close>;
  \<^item> \<open>remove_doubles e m\<close>: the mesh after \<^verbatim>\<open>bpy.ops.mesh.remove_doubles(threshold=e)\<close>
    on all its vertices;
  \<^item> \<open>render_ok p\<close>, \<open>makedirs_ok p\<close>, \<open>open_ok p\<close>: whether rendering to \<open>p\<close>, creating the
    directory \<open>p\<close> and opening \<open>p\<close> for writing succeed; where they do not, the call raises;
  \<^item> \<open>ancestors p\<close>: the directories above the path \<open>p\<close>. \<^verbatim>\<open>os.makedirs\<close> creates the
    missing ones together with \<open>p\<close>, and Blender's render creates the missing ones before it
    writes the picture to \<open>p\<close>;
  \<^item> \<open>created_on_failure p\<close>: the directories a failed \<^verbatim>\<open>os.makedirs\<close> or a failed render
    for \<open>p\<close> has created before it raised;
  \<^item> \<open>matmul m v\<close>: \<^verbatim>\<open>m @ v\<close> of \<^verbatim>\<open>mathutils\<close> for a 4x4 matrix and a 3D vector, computed
    by Blender in single precision; its components are taken to be finite.
\<close>

record host =
  glob_glb :: "string \<Rightarrow> string list"
  path_join :: "string \<Rightarrow> string \<Rightarrow> string"
  base_name :: "string \<Rightarrow> string"
  gltf_import :: "string \<Rightarrow> obj list option"
  join_data :: "obj \<Rightarrow> obj list \<Rightarrow> mesh"
  decimate :: "real \<Rightarrow> bool \<Rightarrow> mesh \<Rightarrow> mesh"
  remove_doubles :: "real \<Rightarrow> mesh \<Rightarrow> mesh"
  render_ok :: "string \<Rightarrow> bool"
  makedirs_ok :: "string \<Rightarrow> bool"
  open_ok :: "string \<Rightarrow> bool"
  ancestors :: "string \<Rightarrow> string set"
  created_on_failure :: "string \<Rightarrow> string set"
  matmul :: "mat4 \<Rightarrow> vec3 \<Rightarrow> vec3"

subsection \<open>Small helpers: logging and number formatting\<close>

definition bpy_call :: "bpy_op \<Rightarrow> world \<Rightarrow> world" where
  "bpy_call c w = w\<lparr>ops := ops w @ [c]\<rparr>"

definition print :: "string \<Rightarrow> world \<Rightarrow> world" where
  "print s w = w\<lparr>out := out w @ [s]\<rparr>"

definition digit_char :: "nat \<Rightarrow> char" where
  "digit_char d = ''0123456789'' ! d"

fun str_nat :: "nat \<Rightarrow> string" where
  "str_nat n = (if n < 10 then [digit_char n] else str_nat (n div 10) @ [digit_char (n mod 10)])"

declare str_nat.simps [simp del]

definition str_int :: "int \<Rightarrow> string" where
  "str_int i = (if i < 0 then ''-'' @ str_nat (nat (- i)) else str_nat (nat i))"

subsection \<open>\<^verbatim>\<open>reduce_vertices\<close>\<close>

text \<open>
  The function is called on the active object, as \<^verbatim>\<open>process_glb_files\<close> does, so that the
  operators of \<^verbatim>\<open>bpy.ops\<close> act on \<open>obj\<close>. \<open>len(bm.verts)\<close> is the number of vertices of
  the mesh. The Decimate modifier is created, configured, applied and thereby removed in
  one go; the modifier stack is not kept. With no vertex and a negative target the
  division raises ZeroDivisionError, in edit mode.
\<close>

definition modifiers_new :: "string \<Rightarrow> string \<Rightarrow> modifier" where
  "modifiers_new nm ty = \<lparr>mod_name = nm, mod_type = ty, ratio = 1, use_collapse_triangulate = False\<rparr>"

definition modifier_apply :: "host \<Rightarrow> modifier \<Rightarrow> obj \<Rightarrow> obj" where
  "modifier_apply h m obj =
     obj\<lparr>data := decimate h (ratio m) (use_collapse_triangulate m) (data obj)\<rparr>"

definition reduce_vertices :: "host \<Rightarrow> obj \<Rightarrow> int \<Rightarrow> world \<Rightarrow> unit result \<times> obj \<times> world" where
  "reduce_vertices h obj target_vertex_count w =
     (if otype obj \<noteq> MESH
      then (Raise (TypeError ''The provided object is not a mesh.''), obj, w)
      else
        let w1 = bpy_call (Mesh_select_all DESELECT)
                   (bpy_call (Mesh_select_mode ''VERT'')
                     (bpy_call (Object_mode_set EDIT) w));
            initial_vertex_count = length (vertices (data obj))
        in if int initial_vertex_count \<le> target_vertex_count
           then (Return (), obj,
                 bpy_call (Object_mode_set OBJECT)
                   (print (''Vertex count ('' @ str_nat initial_vertex_count
                            @ '') is within target ('' @ str_int target_vertex_count @ '').'') w1))
           else if initial_vertex_count = 0
           then (Raise ZeroDivisionError, obj, w1)
           else
             let decimate_ratio = real_of_int target_vertex_count / real initial_vertex_count;
                 w2 = bpy_call (Object_mode_set OBJECT) w1;
                 decimate_mod = (modifiers_new ''Decimate'' ''DECIMATE'')
                                  \<lparr>ratio := decimate_ratio, use_collapse_triangulate := True\<rparr>;
                 obj1 = modifier_apply h decimate_mod obj;
                 w3 = bpy_call (Object_modifier_apply (mod_name decimate_mod)) w2;
                 w4 = bpy_call (Mesh_select_all SELECT) (bpy_call (Object_mode_set EDIT) w3);
                 obj2 = obj1\<lparr>data := remove_doubles h (1 / 10000) (data obj1)\<rparr>;
                 w5 = bpy_call (Mesh_remove_doubles (1 / 10000)) w4;
                 final_vertex_count = length (vertices (data obj2));
                 w6 = bpy_call (Object_mode_set OBJECT) w5
             in (Return (), obj2,
                 print (''Reduced vertices from '' @ str_nat initial_vertex_count @ '' to ''
                          @ str_nat final_vertex_count @ ''.'') w6))"


subsection \<open>\<^verbatim>\<open>clear_scene\<close>, \<^verbatim>\<open>import_glb\<close>, \<^verbatim>\<open>merge_all_meshes\<close>\<close>

definition find_obj :: "world \<Rightarrow> nat \<Rightarrow> obj option" where
  "find_obj w i = find (\<lambda>x. oid x = i) (objects w)"

definition put_obj :: "obj \<Rightarrow> world \<Rightarrow> world" where
  "put_obj ob w = w\<lparr>objects := map (\<lambda>x. if oid x = oid ob then ob else x) (objects w)\<rparr>"

text \<open>A reference to an object that has been removed is cleared by Blender.\<close>

definition live_ref :: "obj list \<Rightarrow> nat option \<Rightarrow> nat option" where
  "live_ref os r = (case r of None \<Rightarrow> None
                    | Some i \<Rightarrow> if i \<in> set (map oid os) then Some i else None)"

definition object_select_all :: "action \<Rightarrow> world \<Rightarrow> world" where
  "object_select_all a w =
     bpy_call (Object_select_all a) (w\<lparr>objects := map (\<lambda>x. x\<lparr>select := (a = SELECT)\<rparr>) (objects w)\<rparr>)"

definition object_delete :: "world \<Rightarrow> world" where
  "object_delete w =
     (let os = filter (\<lambda>x. \<not> select x) (objects w)
      in bpy_call Object_delete
           (w\<lparr>objects := os, active := live_ref os (active w),
              scene_camera := live_ref os (scene_camera w)\<rparr>))"

definition clear_scene :: "world \<Rightarrow> world" where
  "clear_scene w = object_delete (object_select_all SELECT w)"

definition import_glb :: "host \<Rightarrow> string \<Rightarrow> world \<Rightarrow> unit result \<times> world" where
  "import_glb h filepath w =
     (case gltf_import h filepath of
        None \<Rightarrow> (Raise RuntimeError, bpy_call (Import_scene_gltf filepath) w)
      | Some os \<Rightarrow> (Return (), bpy_call (Import_scene_gltf filepath) (w\<lparr>objects := objects w @ os\<rparr>)))"

text \<open>
  \<^verbatim>\<open>bpy.ops.object.join()\<close>: the selected mesh objects are merged into the active one and
  the others of them leave the scene.
\<close>

definition object_join :: "host \<Rightarrow> world \<Rightarrow> world" where
  "object_join h w =
     (case active w of
        None \<Rightarrow> bpy_call Object_join w
      | Some i \<Rightarrow>
          (case find_obj w i of
             None \<Rightarrow> bpy_call Object_join w
           | Some a \<Rightarrow>
               let ms = filter (\<lambda>x. select x \<and> otype x = MESH) (objects w);
                   merged = a\<lparr>data := join_data h a ms\<rparr>;
                   os = filter (\<lambda>x. oid x = i \<or> \<not> (select x \<and> otype x = MESH)) (objects w)
               in bpy_call Object_join (put_obj merged (w\<lparr>objects := os\<rparr>))))"

definition merge_all_meshes :: "host \<Rightarrow> world \<Rightarrow> obj option \<times> world" where
  "merge_all_meshes h w =
     (let w1 = object_select_all DESELECT w;
          mesh_objects = filter (\<lambda>x. otype x = MESH) (objects w1)
      in if mesh_objects = []
         then (None, print ''No mesh objects to merge.'' w1)
         else
           let w2 = w1\<lparr>active := Some (oid (hd mesh_objects))\<rparr>;
               w3 = w2\<lparr>objects := map (\<lambda>x. if otype x = MESH then x\<lparr>select := True\<rparr> else x)
                                      (objects w2)\<rparr>;
               w4 = object_join h w3
           in (case active w4 of None \<Rightarrow> (None, w4) | Some i \<Rightarrow> (find_obj w4 i, w4)))"

subsection \<open>\<^verbatim>\<open>remove_textures\<close>\<close>

text \<open>
  The inner loop runs over the copy \<^verbatim>\<open>list(nodes)\<close> and removes from the live collection:
  the first argument of \<open>remove_nodes\<close> is the copy, the second the collection.
\<close>

fun remove_nodes :: "node list \<Rightarrow> node list \<Rightarrow> node list" where
  "remove_nodes [] nodes = nodes"
| "remove_nodes (nd # snapshot) nodes =
     remove_nodes snapshot (if ntype nd = TEX_IMAGE then remove1 nd nodes else nodes)"

definition strip_material :: "material \<Rightarrow> material" where
  "strip_material mat =
     (case node_tree mat of
        None \<Rightarrow> mat
      | Some nodes \<Rightarrow>
          if use_nodes mat
          then mat\<lparr>node_tree := Some (remove_nodes nodes nodes), diffuse_color := (1, 1, 1, 1)\<rparr>
          else mat)"

text \<open>An empty slot yields \<^verbatim>\<open>None\<close>, and \<^verbatim>\<open>None.use_nodes\<close> raises AttributeError.\<close>

fun strip_materials :: "material option list \<Rightarrow> unit result \<times> material option list" where
  "strip_materials [] = (Return (), [])"
| "strip_materials (None # ms) = (Raise AttributeError, None # ms)"
| "strip_materials (Some mat # ms) =
     (case strip_materials ms of (r, ms') \<Rightarrow> (r, Some (strip_material mat) # ms'))"

definition remove_textures :: "obj \<Rightarrow> world \<Rightarrow> unit result \<times> obj \<times> world" where
  "remove_textures obj w =
     (if materials (data obj) \<noteq> []
      then (case strip_materials (materials (data obj)) of
              (r, ms') \<Rightarrow> (r, obj\<lparr>data := (data obj)\<lparr>materials := ms'\<rparr>\<rparr>, w))
      else (Return (), obj, print ''No materials found to process.'' w))"

subsection \<open>\<^verbatim>\<open>add_plane_and_light\<close>, \<^verbatim>\<open>setup_camera\<close>, \<^verbatim>\<open>render_image\<close>\<close>

definition identity_matrix :: mat4 where
  "identity_matrix = ((1, 0, 0, 0), (0, 1, 0, 0), (0, 0, 1, 0), (0, 0, 0, 1))"

definition empty_mesh :: mesh where
  "empty_mesh = \<lparr>vertices = [], edges = [], polygons = [], materials = []\<rparr>"

text \<open>A new object gets an identity no object of the scene has.\<close>

definition fresh_id :: "obj list \<Rightarrow> nat" where
  "fresh_id os = Suc (foldr max (map oid os) 0)"

definition objects_new :: "string \<Rightarrow> obj_kind \<Rightarrow> world \<Rightarrow> obj" where
  "objects_new nm k w =
     \<lparr>oid = fresh_id (objects w), oname = nm, otype = k, select = False,
      location = (0, 0, 0), rotation_euler = (0, 0, 0), scale = (1, 1, 1),
      matrix_world = identity_matrix, data = empty_mesh, track_to = None\<rparr>"

definition objects_link :: "obj \<Rightarrow> world \<Rightarrow> world" where
  "objects_link ob w = w\<lparr>objects := objects w @ [ob]\<rparr>"

definition objects_remove :: "obj \<Rightarrow> world \<Rightarrow> world" where
  "objects_remove ob w =
     (let os = filter (\<lambda>x. oid x \<noteq> oid ob) (objects w)
      in w\<lparr>objects := os, active := live_ref os (active w),
           scene_camera := live_ref os (scene_camera w)\<rparr>)"

definition plane_mesh :: mesh where
  "plane_mesh =
     \<lparr>vertices = [(-5, -5, 0), (5, -5, 0), (-5, 5, 0), (5, 5, 0)],
      edges = [(2, 0), (0, 1), (1, 3), (3, 2)],
      polygons = [[0, 1, 3, 2]],
      materials = [Some \<lparr>mat_name = ''Plane_Mat'', use_nodes = False, node_tree = None,
                         diffuse_color = (0, 0, 0, 1)\<rparr>]\<rparr>"

definition add_plane_and_light :: "world \<Rightarrow> (obj \<times> obj) \<times> world" where
  "add_plane_and_light w =
     (let plane = (objects_new ''Ground_Plane'' MESH w)
                    \<lparr>location := (0, -10, 0), select := True, data := plane_mesh,
                     matrix_world := ((1, 0, 0, 0), (0, 1, 0, -10), (0, 0, 1, 0), (0, 0, 0, 1))\<rparr>;
          w1 = bpy_call Mesh_primitive_plane_add ((objects_link plane w)\<lparr>active := Some (oid plane)\<rparr>);
          light0 = (objects_new ''Sun'' LIGHT w1)\<lparr>location := (5, 5, 10)\<rparr>;
          w2 = objects_link light0 w1;
          empty_target = objects_new ''LightTarget'' EMPTY w2;
          w3 = objects_link empty_target w2;
          light_obj = light0\<lparr>track_to := Some (oid empty_target)\<rparr>
      in ((plane, light_obj), put_obj light_obj w3))"

definition setup_camera :: "vec3 \<Rightarrow> world \<Rightarrow> (obj \<times> obj) \<times> world" where
  "setup_camera loc w =
     (let cam0 = (objects_new ''Camera'' CAMERA w)\<lparr>location := loc\<rparr>;
          w1 = objects_link cam0 w;
          target = objects_new ''Target'' EMPTY w1;
          w2 = objects_link target w1;
          cam_obj = cam0\<lparr>track_to := Some (oid target)\<rparr>
      in ((cam_obj, target), put_obj cam_obj w2))"

text \<open>
  \<^verbatim>\<open>bpy.ops.render.render(write_still=True)\<close> renders from the scene camera to the
  scene's render filepath, creating the missing directories above it; it raises
  RuntimeError where the host cannot write the picture.
\<close>

definition render_render :: "host \<Rightarrow> world \<Rightarrow> unit result \<times> world" where
  "render_render h w =
     (let cam = (case scene_camera w of None \<Rightarrow> None | Some i \<Rightarrow> find_obj w i);
          cam_loc = map_option location cam;
          look_at = (case cam of None \<Rightarrow> None
                     | Some c \<Rightarrow> (case track_to c of None \<Rightarrow> None
                                  | Some j \<Rightarrow> map_option location (find_obj w j)));
          w1 = bpy_call (Render_render cam_loc look_at (render_filepath w)) w
      in if render_ok h (render_filepath w)
         then (Return (), w1\<lparr>dirs := dirs w1 \<union> ancestors h (render_filepath w),
                             files := (files w1)(render_filepath w \<mapsto> Image)\<rparr>)
         else (Raise RuntimeError,
               w1\<lparr>dirs := dirs w1 \<union> created_on_failure h (render_filepath w)\<rparr>))"

definition render_image ::
    "host \<Rightarrow> string \<Rightarrow> string \<Rightarrow> int \<Rightarrow> real \<Rightarrow> real \<Rightarrow> world \<Rightarrow> unit result \<times> world" where
  "render_image h output_dir bname angle distance height w =
     (let original_filepath = render_filepath w;
          rad = real_of_int angle * pi / 180;
          loc = (distance * cos rad, distance * sin rad, height)
      in case setup_camera loc w of
           ((cam_obj, target), w1) \<Rightarrow>
             let w2 = w1\<lparr>scene_camera := Some (oid cam_obj)\<rparr>;
                 image_path = path_join h output_dir (bname @ ''_'' @ str_int angle @ ''.png'');
                 w3 = w2\<lparr>render_filepath := image_path\<rparr>
             in case render_render h w3 of
                  (Raise e, w4) \<Rightarrow> (Raise e, w4)
                | (Return u, w4) \<Rightarrow>
                    let w5 = objects_remove cam_obj w4;
                        w6 = objects_remove target w5;
                        w7 = w6\<lparr>render_filepath := original_filepath\<rparr>
                    in (Return (), print (''Rendered image saved as '' @ image_path) w7))"

subsection \<open>\<^verbatim>\<open>export_to_json\<close>\<close>

text \<open>
  Python's \<^verbatim>\<open>round(x, n)\<close> on a float rounds the exact value of \<open>x\<close> to \<open>n\<close> decimal
  digits, ties to the even neighbour.
\<close>

definition round_half_even :: "real \<Rightarrow> int" where
  "round_half_even y =
     (let fl = \<lfloor>y\<rfloor>; d = y - of_int fl
      in if d < 1 / 2 then fl else if 1 / 2 < d then fl + 1 else if even fl then fl else fl + 1)"

definition py_round :: "real \<Rightarrow> nat \<Rightarrow> real" where
  "py_round x ndigits = of_int (round_half_even (x * 10 ^ ndigits)) / 10 ^ ndigits"

definition rounded_triple :: "vec3 \<Rightarrow> json" where
  "rounded_triple p =
     (case p of (x, y, z) \<Rightarrow> JList [JFloat (py_round x 4), JFloat (py_round y 4), JFloat (py_round z 4)])"

text \<open>
  The dictionary \<^verbatim>\<open>data\<close>; the three loops append to its lists \<^verbatim>\<open>"v"\<close>, \<^verbatim>\<open>"e"\<close> and
  \<^verbatim>\<open>"f"\<close>. \<^verbatim>\<open>calc_loop_triangles\<close> fills a cache and changes none of the fields read here.
\<close>

definition export_data :: "host \<Rightarrow> obj \<Rightarrow> json" where
  "export_data h obj =
     (let obj_matrix_world = matrix_world obj;
          v = foldl (\<lambda>acc co. acc @ [rounded_triple (matmul h obj_matrix_world co)]) []
                (vertices (data obj));
          e = foldl (\<lambda>acc edge. acc @ [JList [JInt (int (fst edge)), JInt (int (snd edge))]]) []
                (edges (data obj));
          f = foldl (\<lambda>acc face. acc @ [JList (map (\<lambda>i. JInt (int i)) face)]) []
                (polygons (data obj))
      in JDict [(''n'', JString ''airplane''),
                (''l'', rounded_triple (location obj)),
                (''r'', rounded_triple (rotation_euler obj)),
                (''s'', rounded_triple (scale obj)),
                (''v'', JList v),
                (''e'', JList e),
                (''f'', JList f)])"

definition export_to_json :: "host \<Rightarrow> obj \<Rightarrow> string \<Rightarrow> world \<Rightarrow> unit result \<times> world" where
  "export_to_json h obj output_filepath w =
     (let d = export_data h obj
      in if open_ok h output_filepath
         then (Return (), print (''Exported mesh JSON to '' @ output_filepath)
                            (w\<lparr>files := (files w)(output_filepath \<mapsto> Json_text d)\<rparr>))
         else (Raise OSError, w))"

subsection \<open>The text of the numbers in the JSON file\<close>

text \<open>
  \<^verbatim>\<open>json.dump\<close> writes an int with \<^verbatim>\<open>int.__repr__\<close> and a float with
  \<^verbatim>\<open>float.__repr__\<close>, the shortest decimal string that reads back as the same float, in
  fixed notation with at least one digit after the point, or in exponent notation from
  \<open>10\<^sup>1\<^sup>6\<close> on. \<open>float_repr_abs x\<close> is that string without its sign, for the
  float next to \<open>x\<close>, where \<open>x\<close> is a multiple of \<open>10\<^sup>-\<^sup>4\<close> of magnitude below
  \<open>10\<^sup>1\<^sup>1\<close>: such an \<open>x\<close> has at most 15 significant digits, so the string is the
  decimal expansion of \<open>\<bar>x\<bar>\<close> without trailing zeros. For every other \<open>x\<close> the text is
  not modelled and the result is \<open>None\<close>. The sign is left out because a real zero has
  none, whereas Python writes \<open>0.0\<close> or \<open>-0.0\<close>.
\<close>

definition frac_digits :: "nat \<Rightarrow> string" where
  "frac_digits m =
     (let ds = [digit_char (m div 1000 mod 10), digit_char (m div 100 mod 10),
                digit_char (m div 10 mod 10), digit_char (m mod 10)];
          core = rev (dropWhile (\<lambda>c. c = CHR ''0'') (rev ds))
      in if core = [] then ''0'' else core)"

definition float_repr_abs :: "real \<Rightarrow> string option" where
  "float_repr_abs x =
     (let k = \<lfloor>x * 10000\<rfloor>; a = nat \<bar>k\<bar>
      in if of_int k = x * 10000 \<and> \<bar>x\<bar> < 10 ^ 11
         then Some (str_nat (a div 10000) @ ''.'' @ frac_digits (a mod 10000))
         else None)"

text \<open>
  The numbers of a document as \<^verbatim>\<open>json.dump\<close> writes them, in order and without signs;
  \<open>None\<close> stands for a float whose text is not modelled.
\<close>

fun numeric_tokens :: "json \<Rightarrow> string option list" where
  "numeric_tokens (JInt i) = [Some (str_nat (nat \<bar>i\<bar>))]"
| "numeric_tokens (JFloat x) = [float_repr_abs x]"
| "numeric_tokens (JString s) = []"
| "numeric_tokens (JList xs) = concat (map numeric_tokens xs)"
| "numeric_tokens (JDict kvs) = concat (map (\<lambda>kv. numeric_tokens (snd kv)) kvs)"

definition decimal_places :: "string \<Rightarrow> nat" where
  "decimal_places s = length (tl (dropWhile (\<lambda>c. c \<noteq> CHR ''.'') s))"

definition json_get :: "json \<Rightarrow> string \<Rightarrow> json option" where
  "json_get j k = (case j of JDict kvs \<Rightarrow> map_of kvs k | _ \<Rightarrow> None)"

definition json_len :: "json option \<Rightarrow> nat option" where
  "json_len j = (case j of Some (JList xs) \<Rightarrow> Some (length xs) | _ \<Rightarrow> None)"

subsection \<open>\<^verbatim>\<open>process_glb_files\<close>\<close>

text \<open>\<^verbatim>\<open>os.makedirs(p, exist_ok=True)\<close> creates \<open>p\<close> and the missing directories above it.\<close>

definition makedirs :: "host \<Rightarrow> string \<Rightarrow> world \<Rightarrow> unit result \<times> world" where
  "makedirs h p w =
     (if makedirs_ok h p
      then (Return (), w\<lparr>dirs := insert p (dirs w \<union> ancestors h p)\<rparr>)
      else (Raise OSError, w\<lparr>dirs := dirs w \<union> created_on_failure h p\<rparr>))"

text \<open>The defaults of the signatures of \<^verbatim>\<open>render_image\<close> and \<^verbatim>\<open>process_glb_files\<close>.\<close>

definition default_distance :: real where
  "default_distance = 5"

definition default_height :: real where
  "default_height = 2"

definition default_render_angle :: int where
  "default_render_angle = 45"


text \<open>
  The body of the loop for one file. The stages change the merged object in place, so
  their result is stored back into the scene. \<^verbatim>\<open>render_image\<close> is called with three
  arguments, hence with the default distance and height.
\<close>

definition process_asset ::
    "host \<Rightarrow> string \<Rightarrow> int \<Rightarrow> int \<Rightarrow> string \<Rightarrow> world \<Rightarrow> unit result \<times> world" where
  "process_asset h output_folder target_vertex_count render_angle glb_file w =
     (let w1 = clear_scene (print (''Processing '' @ glb_file @ ''...'') w)
      in case import_glb h glb_file w1 of
           (Raise e, w2) \<Rightarrow> (Raise e, w2)
         | (Return u, w2) \<Rightarrow>
        (case merge_all_meshes h w2 of
           (None, w3) \<Rightarrow>
             (Return (), print (''No meshes found in '' @ glb_file @ '', skipping...'') w3)
         | (Some merged_obj, w3) \<Rightarrow>
        (case reduce_vertices h merged_obj target_vertex_count w3 of
           (Raise e, obj1, w4) \<Rightarrow> (Raise e, put_obj obj1 w4)
         | (Return u, obj1, w4) \<Rightarrow>
        (case remove_textures obj1 (put_obj obj1 w4) of
           (Raise e, obj2, w5) \<Rightarrow> (Raise e, put_obj obj2 w5)
         | (Return u, obj2, w5) \<Rightarrow>
        (case add_plane_and_light (put_obj obj2 w5) of
           (helpers, w6) \<Rightarrow>
             let bname = base_name h glb_file;
                 model_folder = path_join h output_folder bname
             in
        (case makedirs h model_folder w6 of
           (Raise e, w7) \<Rightarrow> (Raise e, w7)
         | (Return u, w7) \<Rightarrow>
        (case render_image h model_folder bname render_angle default_distance default_height w7 of
           (Raise e, w8) \<Rightarrow> (Raise e, w8)
         | (Return u, w8) \<Rightarrow>
             let json_path = path_join h model_folder (bname @ ''.json'')
             in export_to_json h obj2 json_path w8)))))))"

fun process_loop ::
    "host \<Rightarrow> string \<Rightarrow> int \<Rightarrow> int \<Rightarrow> string list \<Rightarrow> world \<Rightarrow> unit result \<times> world" where
  "process_loop h output_folder target_vertex_count render_angle [] w = (Return (), w)"
| "process_loop h output_folder target_vertex_count render_angle (glb_file # rest) w =
     (case process_asset h output_folder target_vertex_count render_angle glb_file w of
        (Raise e, w') \<Rightarrow> (Raise e, w')
      | (Return u, w') \<Rightarrow> process_loop h output_folder target_vertex_count render_angle rest w')"

text \<open>\<open>render_angle\<close> is \<open>None\<close> where the caller leaves the argument out.\<close>

definition process_glb_files ::
    "host \<Rightarrow> string \<Rightarrow> string \<Rightarrow> int \<Rightarrow> int option \<Rightarrow> world \<Rightarrow> unit result \<times> world" where
  "process_glb_files h input_folder output_folder target_vertex_count render_angle w =
     (let angle = (case render_angle of None \<Rightarrow> default_render_angle | Some a \<Rightarrow> a)
      in case makedirs h output_folder w of
           (Raise e, w1) \<Rightarrow> (Raise e, w1)
         | (Return u, w1) \<Rightarrow>
             let glb_files = glob_glb h input_folder
             in if glb_files = []
                then (Return (), print ''No GLB files found in the specified folder.'' w1)
                else process_loop h output_folder target_vertex_count angle glb_files w1)"


subsection \<open>Concrete inputs\<close>

definition demo_base_name :: "string \<Rightarrow> string" where
  "demo_base_name p =
     (let b = rev (takeWhile (\<lambda>c. c \<noteq> CHR ''/'') (rev p))
      in if CHR ''.'' \<in> set b then rev (tl (dropWhile (\<lambda>c. c \<noteq> CHR ''.'') (rev b))) else b)"

definition demo_mesh :: mesh where
  "demo_mesh =
     \<lparr>vertices = [(0, 0, 0), (1, 0, 0), (0, 1, 0), (1 / 64, 3 / 64, 1 / 32)],
      edges = [(0, 1), (1, 2), (2, 0)],
      polygons = [[0, 1, 2]],
      materials = []\<rparr>"

definition demo_obj :: obj where
  "demo_obj =
     \<lparr>oid = 1, oname = ''Body'', otype = MESH, select = False,
      location = (0, 0, 0), rotation_euler = (0, 0, 0), scale = (1, 1, 1),
      matrix_world = identity_matrix, data = demo_mesh, track_to = None\<rparr>"

text \<open>
  The product of the sample host: the vector is extended by 1 and the first three
  components of the exact product are returned. On the sample coordinates, small dyadic
  numbers, the single-precision product has the same value.
\<close>

definition exact_mat_vec :: "mat4 \<Rightarrow> vec3 \<Rightarrow> vec3" where
  "exact_mat_vec m co =
     (case m of ((a00, a01, a02, a03), (a10, a11, a12, a13), (a20, a21, a22, a23), r3) \<Rightarrow>
        (case co of (x, y, z) \<Rightarrow>
           (a00 * x + a01 * y + a02 * z + a03,
            a10 * x + a11 * y + a12 * z + a13,
            a20 * x + a21 * y + a22 * z + a23)))"

text \<open>The directories above a path written with \<open>/\<close>: its proper prefixes that end before a \<open>/\<close>.\<close>

fun slash_prefixes :: "string \<Rightarrow> string \<Rightarrow> string list" where
  "slash_prefixes acc [] = []"
| "slash_prefixes acc (c # cs) =
     (if c = CHR ''/'' \<and> acc \<noteq> [] then [acc] else []) @ slash_prefixes (acc @ [c]) cs"

definition demo_ancestors :: "string \<Rightarrow> string set" where
  "demo_ancestors p = set (slash_prefixes [] p)"

definition demo_host :: host where
  "demo_host =
     \<lparr>glob_glb = (\<lambda>d. [d @ ''/a.glb'', d @ ''/b.glb'']),
      path_join = (\<lambda>a b. a @ ''/'' @ b),
      base_name = demo_base_name,
      gltf_import = (\<lambda>p. Some [demo_obj]),
      join_data = (\<lambda>a ms. data a),
      decimate = (\<lambda>r t m. m\<lparr>vertices := take (nat \<lfloor>r * real (length (vertices m))\<rfloor>) (vertices m),
                              edges := [], polygons := []\<rparr>),
      remove_doubles = (\<lambda>e m. m\<lparr>vertices := remdups (vertices m)\<rparr>),
      render_ok = (\<lambda>p. True),
      makedirs_ok = (\<lambda>p. True),
      open_ok = (\<lambda>p. True),
      ancestors = demo_ancestors,
      created_on_failure = (\<lambda>p. {}),
      matmul = exact_mat_vec\<rparr>"

definition demo_world :: world where
  "demo_world =
     \<lparr>objects = [demo_obj], active = Some 1, scene_camera = None, render_filepath = ''//tmp'',
      dirs = {}, files = Map.empty, ops = [], out = []\<rparr>"

definition demo_textured_material :: material where
  "demo_textured_material =
     \<lparr>mat_name = ''Painted'', use_nodes = True,
      node_tree = Some [\<lparr>node_name = ''Principled BSDF'', ntype = BSDF_PRINCIPLED\<rparr>,
                        \<lparr>node_name = ''Image Texture'', ntype = TEX_IMAGE\<rparr>,
                        \<lparr>node_name = ''Material Output'', ntype = OUTPUT_MATERIAL\<rparr>],
      diffuse_color = (4 / 5, 4 / 5, 4 / 5, 1)\<rparr>"

definition demo_plain_material :: material where
  "demo_plain_material =
     \<lparr>mat_name = ''Plain'', use_nodes = True,
      node_tree = Some [\<lparr>node_name = ''Principled BSDF'', ntype = BSDF_PRINCIPLED\<rparr>,
                        \<lparr>node_name = ''Material Output'', ntype = OUTPUT_MATERIAL\<rparr>],
      diffuse_color = (1 / 5, 2 / 5, 3 / 5, 1)\<rparr>"

definition demo_flat_material :: material where
  "demo_flat_material =
     \<lparr>mat_name = ''Flat'', use_nodes = False,
      node_tree = Some [\<lparr>node_name = ''Image Texture'', ntype = TEX_IMAGE\<rparr>],
      diffuse_color = (4 / 5, 1 / 5, 1 / 5, 1)\<rparr>"

definition with_materials :: "material option list \<Rightarrow> obj \<Rightarrow> obj" where
  "with_materials ms ob = ob\<lparr>data := (data ob)\<lparr>materials := ms\<rparr>\<rparr>"

text \<open>The render requests of a call log: camera location, look-at location, output path.\<close>

fun render_requests :: "bpy_op list \<Rightarrow> (vec3 option \<times> vec3 option \<times> string) list" where
  "render_requests [] = []"
| "render_requests (Render_render cam_loc look_at p # cs) = (cam_loc, look_at, p) # render_requests cs"
| "render_requests (c # cs) = render_requests cs"

definition failing_render_host :: host where
  "failing_render_host = demo_host\<lparr>render_ok := (\<lambda>p. False)\<rparr>"

definition failing_open_host :: host where
  "failing_open_host = demo_host\<lparr>open_ok := (\<lambda>p. False)\<rparr>"

definition failing_import_host :: host where
  "failing_import_host = demo_host\<lparr>gltf_import := (\<lambda>p. None)\<rparr>"

definition failing_makedirs_host :: host where
  "failing_makedirs_host = demo_host\<lparr>makedirs_ok := (\<lambda>p. p = ''out'')\<rparr>"

definition empty_slot_host :: host where
  "empty_slot_host = demo_host\<lparr>gltf_import := (\<lambda>p. Some [with_materials [None] demo_obj])\<rparr>"

definition camera_only_host :: host where
  "camera_only_host = demo_host\<lparr>gltf_import := (\<lambda>p. Some [demo_obj\<lparr>otype := CAMERA\<rparr>])\<rparr>"

text \<open>The float values of a JSON document, in the order they are written.\<close>

fun json_floats :: "json \<Rightarrow> real list" where
  "json_floats (JInt i) = []"
| "json_floats (JFloat x) = [x]"
| "json_floats (JString s) = []"
| "json_floats (JList xs) = concat (map json_floats xs)"
| "json_floats (JDict kvs) = concat (map (\<lambda>kv. json_floats (snd kv)) kvs)"

definition demo_placed_obj :: obj where
  "demo_placed_obj =
     demo_obj\<lparr>location := (1, 0, 0), scale := (2, 2, 2),
              matrix_world := ((2, 0, 0, 1), (0, 2, 0, 0), (0, 0, 2, 0), (0, 0, 0, 1))\<rparr>"

section \<open>Properties of \<^verbatim>\<open>reduce_vertices\<close>\<close>

text \<open>
  C8. An object whose type is not MESH is rejected with TypeError: the call raises at once,
  and neither the object (its mesh data included) nor the world is changed.
\<close>

theorem reduce_vertices_non_mesh:
  "otype obj \<noteq> MESH \<Longrightarrow>
     reduce_vertices h obj t w = (Raise (TypeError ''The provided object is not a mesh.''), obj, w)"
  by (simp add: reduce_vertices_def)

theorem reduce_vertices_non_mesh_witness:
  "otype (demo_obj\<lparr>otype := CAMERA\<rparr>) \<noteq> MESH \<and>
   reduce_vertices demo_host (demo_obj\<lparr>otype := CAMERA\<rparr>) 2 demo_world
     = (Raise (TypeError ''The provided object is not a mesh.''), demo_obj\<lparr>otype := CAMERA\<rparr>, demo_world)"
  using reduce_vertices_non_mesh [where obj = "demo_obj\<lparr>otype := CAMERA\<rparr>" and h = demo_host
                                    and t = 2 and w = demo_world]
  by simp

text \<open>
  C2. For a mesh object with at most \<open>target_vertex_count\<close> vertices, \<open>reduce_vertices\<close>
  returns normally and leaves the object as it was, so its vertices, edges and faces are the
  input ones. It calls only the mode and selection operators (no modifier is applied, no
  weld is run), and changes nothing in the world but the call log and the printed lines.
\<close>

theorem reduce_vertices_within_budget:
  "otype obj = MESH \<Longrightarrow> int (length (vertices (data obj))) \<le> t \<Longrightarrow>
     (case reduce_vertices h obj t w of (r, obj', w') \<Rightarrow>
        r = Return () \<and> obj' = obj \<and>
        ops w' = ops w @ [Object_mode_set EDIT, Mesh_select_mode ''VERT'',
                          Mesh_select_all DESELECT, Object_mode_set OBJECT] \<and>
        w'\<lparr>ops := ops w, out := out w\<rparr> = w)"
  by (simp add: reduce_vertices_def bpy_call_def print_def)

theorem reduce_vertices_within_budget_witness:
  "otype demo_obj = MESH \<and> int (length (vertices (data demo_obj))) \<le> 4 \<and>
     (case reduce_vertices demo_host demo_obj 4 demo_world of (r, obj', w') \<Rightarrow>
        r = Return () \<and> obj' = demo_obj \<and>
        ops w' = ops demo_world @ [Object_mode_set EDIT, Mesh_select_mode ''VERT'',
                          Mesh_select_all DESELECT, Object_mode_set OBJECT] \<and>
        w'\<lparr>ops := ops demo_world, out := out demo_world\<rparr> = demo_world)"
proof -
  have a: "otype demo_obj = MESH" by (simp add: demo_obj_def)
  have b: "int (length (vertices (data demo_obj))) \<le> 4" by (simp add: demo_obj_def demo_mesh_def)
  show ?thesis
    using a b reduce_vertices_within_budget [OF a b, where h = demo_host and w = demo_world]
    by simp
qed

text \<open>
  C3. For a mesh object with more vertices than a positive \<open>target_vertex_count\<close>, the ratio
  \<open>target_vertex_count / initial_vertex_count\<close> lies strictly between 0 and 1, and
  \<open>reduce_vertices\<close> returns the object whose mesh is the input mesh decimated once with that
  ratio and with triangulation on collapse, then welded once with threshold \<open>1e-4\<close>. The
  call log gains exactly one modifier application followed by exactly one
  \<^verbatim>\<open>remove_doubles\<close>.
\<close>

theorem reduce_vertices_over_budget:
  assumes "otype obj = MESH" and "0 < t" and "t < int (length (vertices (data obj)))"
  shows "0 < real_of_int t / real (length (vertices (data obj))) \<and>
         real_of_int t / real (length (vertices (data obj))) < 1 \<and>
     (case reduce_vertices h obj t w of (r, obj', w') \<Rightarrow>
        r = Return () \<and>
        obj' = obj\<lparr>data := remove_doubles h (1 / 10000)
                   (decimate h (real_of_int t / real (length (vertices (data obj)))) True (data obj))\<rparr> \<and>
        ops w' = ops w @ [Object_mode_set EDIT, Mesh_select_mode ''VERT'',
                          Mesh_select_all DESELECT, Object_mode_set OBJECT,
                          Object_modifier_apply ''Decimate'',
                          Object_mode_set EDIT, Mesh_select_all SELECT,
                          Mesh_remove_doubles (1 / 10000), Object_mode_set OBJECT] \<and>
        w'\<lparr>ops := ops w, out := out w\<rparr> = w)"
proof -
  let ?n = "length (vertices (data obj))"
  from assms have n: "0 < ?n" by linarith
  from assms n have r0: "0 < real_of_int t / real ?n" by simp
  from assms have "real_of_int t < real ?n" by linarith
  with n have r1: "real_of_int t / real ?n < 1" by simp
  have "\<not> int ?n \<le> t" using assms by simp
  moreover have "?n \<noteq> 0" using n by simp
  ultimately have run: "(case reduce_vertices h obj t w of (r, obj', w') \<Rightarrow>
        r = Return () \<and>
        obj' = obj\<lparr>data := remove_doubles h (1 / 10000)
                   (decimate h (real_of_int t / real ?n) True (data obj))\<rparr> \<and>
        ops w' = ops w @ [Object_mode_set EDIT, Mesh_select_mode ''VERT'',
                          Mesh_select_all DESELECT, Object_mode_set OBJECT,
                          Object_modifier_apply ''Decimate'',
                          Object_mode_set EDIT, Mesh_select_all SELECT,
                          Mesh_remove_doubles (1 / 10000), Object_mode_set OBJECT] \<and>
        w'\<lparr>ops := ops w, out := out w\<rparr> = w)"
    using assms(1)
    by (simp add: reduce_vertices_def bpy_call_def print_def modifier_apply_def
          modifiers_new_def Let_def)
  from r0 r1 run show ?thesis by blast
qed

theorem reduce_vertices_over_budget_witness:
  "otype demo_obj = MESH \<and> (0::int) < 2 \<and> 2 < int (length (vertices (data demo_obj))) \<and>
   (0::real) < 2 / 4 \<and> (2::real) / 4 < 1 \<and>
   (case reduce_vertices demo_host demo_obj 2 demo_world of (r, obj', w') \<Rightarrow>
      r = Return () \<and>
      vertices (data obj') = [(0, 0, 0), (1, 0, 0)] \<and>
      ops w' = [Object_mode_set EDIT, Mesh_select_mode ''VERT'',
                Mesh_select_all DESELECT, Object_mode_set OBJECT,
                Object_modifier_apply ''Decimate'',
                Object_mode_set EDIT, Mesh_select_all SELECT,
                Mesh_remove_doubles (1 / 10000), Object_mode_set OBJECT])"
proof -
  have a: "otype demo_obj = MESH" by (simp add: demo_obj_def)
  have b: "(0::int) < 2" by simp
  have c: "2 < int (length (vertices (data demo_obj)))" by (simp add: demo_obj_def demo_mesh_def)
  have d: "length (vertices (data demo_obj)) = 4" by (simp add: demo_obj_def demo_mesh_def)
  have e: "vertices (remove_doubles demo_host (1 / 10000)
             (decimate demo_host (2 / 4) True (data demo_obj))) = [(0, 0, 0), (1, 0, 0)]"
    by (simp add: demo_host_def demo_obj_def demo_mesh_def)
  show ?thesis
    using a b c e reduce_vertices_over_budget [OF a b c, where h = demo_host and w = demo_world]
    by (simp add: d demo_world_def split: prod.splits)
qed

section \<open>Properties of \<^verbatim>\<open>remove_textures\<close>\<close>

lemma remove_nodes_append:
  "\<forall>x\<in>set pre. ntype x \<noteq> TEX_IMAGE \<Longrightarrow>
     remove_nodes xs (pre @ xs) = pre @ filter (\<lambda>x. ntype x \<noteq> TEX_IMAGE) xs"
proof (induction xs arbitrary: pre)
  case Nil
  then show ?case by simp
next
  case (Cons a xs)
  show ?case
  proof (cases "ntype a = TEX_IMAGE")
    case True
    with Cons.prems have "a \<notin> set pre" by auto
    then have "remove1 a (pre @ a # xs) = pre @ xs" by (simp add: remove1_append)
    with True Cons.IH [OF Cons.prems] show ?thesis by simp
  next
    case False
    with Cons.prems have "\<forall>x\<in>set (pre @ [a]). ntype x \<noteq> TEX_IMAGE" by simp
    from Cons.IH [OF this] False show ?thesis by simp
  qed
qed

lemma remove_nodes_filter:
  "remove_nodes ns ns = filter (\<lambda>x. ntype x \<noteq> TEX_IMAGE) ns"
  using remove_nodes_append [of "[]" ns] by simp

lemma strip_material_eq:
  "strip_material mat =
     (if use_nodes mat \<and> node_tree mat \<noteq> None
      then mat\<lparr>node_tree := map_option (filter (\<lambda>x. ntype x \<noteq> TEX_IMAGE)) (node_tree mat),
               diffuse_color := (1, 1, 1, 1)\<rparr>
      else mat)"
  by (cases "node_tree mat") (simp_all add: strip_material_def remove_nodes_filter)

lemma strip_materials_filled:
  "None \<notin> set ms \<Longrightarrow> strip_materials ms = (Return (), map (map_option strip_material) ms)"
proof (induction ms)
  case Nil
  then show ?case by simp
next
  case (Cons m ms)
  then show ?case by (cases m) auto
qed

text \<open>
  C6, as the code has it. For a mesh with at least one material and no empty slot,
  \<open>remove_textures\<close> returns normally; in every material that uses nodes and has a node
  tree it removes exactly the TEX_IMAGE nodes (the other nodes stay, in their order) and sets
  the diffuse colour to opaque white; every other material is left as it was.
\<close>

theorem remove_textures_node_materials:
  assumes "materials (data obj) \<noteq> []" and "None \<notin> set (materials (data obj))"
  shows "remove_textures obj w =
           (Return (),
            obj\<lparr>data := (data obj)\<lparr>materials :=
                   map (map_option (\<lambda>mat.
                          if use_nodes mat \<and> node_tree mat \<noteq> None
                          then mat\<lparr>node_tree := map_option (filter (\<lambda>x. ntype x \<noteq> TEX_IMAGE)) (node_tree mat),
                                   diffuse_color := (1, 1, 1, 1)\<rparr>
                          else mat))
                       (materials (data obj))\<rparr>\<rparr>,
            w)"
proof -
  have "strip_material = (\<lambda>mat.
                          if use_nodes mat \<and> node_tree mat \<noteq> None
                          then mat\<lparr>node_tree := map_option (filter (\<lambda>x. ntype x \<noteq> TEX_IMAGE)) (node_tree mat),
                                   diffuse_color := (1, 1, 1, 1)\<rparr>
                          else mat)"
    by (rule ext) (rule strip_material_eq)
  with assms show ?thesis
    by (simp add: remove_textures_def strip_materials_filled)
qed

theorem remove_textures_node_materials_witness:
  "materials (data (with_materials [Some demo_textured_material, Some demo_plain_material] demo_obj)) \<noteq> [] \<and>
   None \<notin> set (materials (data (with_materials [Some demo_textured_material, Some demo_plain_material] demo_obj))) \<and>
   remove_textures (with_materials [Some demo_textured_material, Some demo_plain_material] demo_obj) demo_world =
     (Return (),
      with_materials
        [Some (demo_textured_material
                 \<lparr>node_tree := Some [\<lparr>node_name = ''Principled BSDF'', ntype = BSDF_PRINCIPLED\<rparr>,
                                     \<lparr>node_name = ''Material Output'', ntype = OUTPUT_MATERIAL\<rparr>],
                  diffuse_color := (1, 1, 1, 1)\<rparr>),
         Some (demo_plain_material\<lparr>diffuse_color := (1, 1, 1, 1)\<rparr>)] demo_obj,
      demo_world)"
proof -
  let ?ob = "with_materials [Some demo_textured_material, Some demo_plain_material] demo_obj"
  have a: "materials (data ?ob) \<noteq> []" by (simp add: with_materials_def)
  have b: "None \<notin> set (materials (data ?ob))" by (simp add: with_materials_def)
  show ?thesis
    using a b remove_textures_node_materials [OF a b, where w = demo_world]
    by (simp add: with_materials_def demo_textured_material_def demo_plain_material_def)
qed

text \<open>
  C6 as stated fails for a material that does not use nodes: it keeps its colour and the
  image-texture node of its node tree.
\<close>

theorem remove_textures_flat_material_counterexample:
  "remove_textures (with_materials [Some demo_flat_material] demo_obj) demo_world =
     (Return (), with_materials [Some demo_flat_material] demo_obj, demo_world) \<and>
   diffuse_color demo_flat_material \<noteq> (1, 1, 1, 1) \<and>
   node_tree demo_flat_material = Some [\<lparr>node_name = ''Image Texture'', ntype = TEX_IMAGE\<rparr>]"
  by (simp add: remove_textures_def with_materials_def demo_flat_material_def strip_material_def)

section \<open>Properties of \<^verbatim>\<open>render_image\<close>\<close>

lemma oid_less_fresh_id: "x \<in> set os \<Longrightarrow> oid x < fresh_id os"
  by (induction os) (auto simp: fresh_id_def)

lemma oid_neq_fresh_id: "x \<in> set os \<Longrightarrow> oid x \<noteq> fresh_id os"
  using oid_less_fresh_id [of x os] by simp

lemma oid_neq_Suc_fresh_id: "x \<in> set os \<Longrightarrow> oid x \<noteq> Suc (fresh_id os)"
  using oid_less_fresh_id [of x os] by simp

lemma filter_fresh_id: "filter (\<lambda>x. oid x \<noteq> fresh_id os) os = os"
  by (simp add: filter_id_conv oid_neq_fresh_id)

lemma filter_Suc_fresh_id: "filter (\<lambda>x. oid x \<noteq> Suc (fresh_id os)) os = os"
  by (simp add: filter_id_conv oid_neq_Suc_fresh_id)

lemma map_fresh_id: "map (\<lambda>x. if oid x = fresh_id os then y else x) os = os"
  by (rule map_idI) (simp add: oid_neq_fresh_id)

lemma find_fresh_id: "find (\<lambda>x. oid x = fresh_id os) os = None"
  by (simp add: find_None_iff oid_neq_fresh_id)

lemma find_Suc_fresh_id: "find (\<lambda>x. oid x = Suc (fresh_id os)) os = None"
  by (simp add: find_None_iff oid_neq_Suc_fresh_id)

lemma foldr_max_snoc: "foldr max (ns @ [m]) (0::nat) = max (foldr max ns 0) m"
  by (induction ns) auto

lemma fresh_id_snoc: "oid y = fresh_id os \<Longrightarrow> fresh_id (os @ [y]) = Suc (fresh_id os)"
  by (simp add: fresh_id_def foldr_max_snoc del: foldr_append)

lemma fresh_id_not_in: "fresh_id os \<notin> oid ` set os"
proof
  assume "fresh_id os \<in> oid ` set os"
  then obtain x where "x \<in> set os" and "oid x = fresh_id os" by auto
  then show False using oid_neq_fresh_id by blast
qed

lemma Suc_fresh_id_not_in: "Suc (fresh_id os) \<notin> oid ` set os"
proof
  assume "Suc (fresh_id os) \<in> oid ` set os"
  then obtain x where "x \<in> set os" and "oid x = Suc (fresh_id os)" by auto
  then show False using oid_neq_Suc_fresh_id by blast
qed

lemma setup_camera_eq:
  "setup_camera loc w =
     (((objects_new ''Camera'' CAMERA w)\<lparr>location := loc, track_to := Some (Suc (fresh_id (objects w)))\<rparr>,
       (objects_new ''Target'' EMPTY w)\<lparr>oid := Suc (fresh_id (objects w))\<rparr>),
      w\<lparr>objects := objects w @
           [(objects_new ''Camera'' CAMERA w)\<lparr>location := loc, track_to := Some (Suc (fresh_id (objects w)))\<rparr>,
            (objects_new ''Target'' EMPTY w)\<lparr>oid := Suc (fresh_id (objects w))\<rparr>]\<rparr>)"
  by (simp add: setup_camera_def Let_def objects_new_def objects_link_def put_obj_def
        fresh_id_snoc map_fresh_id)

lemma render_requests_append:
  "render_requests (cs @ ds) = render_requests cs @ render_requests ds"
  by (induction cs rule: render_requests.induct) simp_all

lemma find_app:
  "find P (xs @ ys) = (case find P xs of None \<Rightarrow> find P ys | Some x \<Rightarrow> Some x)"
  by (induction xs) auto

lemma filter_both_fresh:
  "filter (\<lambda>x. oid x \<noteq> fresh_id os \<and> oid x \<noteq> Suc (fresh_id os)) os = os"
  by (simp add: filter_id_conv oid_neq_fresh_id oid_neq_Suc_fresh_id)

lemma render_image_ok:
  assumes "render_ok h (path_join h output_dir (bname @ ''_'' @ str_int angle @ ''.png''))"
  shows "\<exists>w'. render_image h output_dir bname angle distance height w = (Return (), w') \<and>
     render_filepath w' = render_filepath w \<and> objects w' = objects w \<and>
     scene_camera w' = None \<and>
     dirs w' = dirs w \<union> ancestors h (path_join h output_dir (bname @ ''_'' @ str_int angle @ ''.png'')) \<and>
     files w' = (files w)(path_join h output_dir (bname @ ''_'' @ str_int angle @ ''.png'') \<mapsto> Image) \<and>
     ops w' = ops w @ [Render_render
                  (Some (distance * cos (real_of_int angle * pi / 180),
                         distance * sin (real_of_int angle * pi / 180), height))
                  (Some (0, 0, 0))
                  (path_join h output_dir (bname @ ''_'' @ str_int angle @ ''.png''))] \<and>
     out w' = out w @ [''Rendered image saved as '' @
                        path_join h output_dir (bname @ ''_'' @ str_int angle @ ''.png'')]"
  using assms
  by (simp add: render_image_def setup_camera_eq render_render_def find_obj_def Let_def
        objects_new_def bpy_call_def print_def objects_remove_def
        find_fresh_id find_Suc_fresh_id filter_fresh_id filter_Suc_fresh_id filter_both_fresh
        live_ref_def fresh_id_not_in Suc_fresh_id_not_in find_app)

lemma render_image_fail:
  assumes "\<not> render_ok h (path_join h output_dir (bname @ ''_'' @ str_int angle @ ''.png''))"
  shows "\<exists>w'. render_image h output_dir bname angle distance height w = (Raise RuntimeError, w') \<and>
     render_filepath w' = path_join h output_dir (bname @ ''_'' @ str_int angle @ ''.png'') \<and>
     length (objects w') = length (objects w) + 2 \<and>
     dirs w' = dirs w \<union> created_on_failure h (path_join h output_dir (bname @ ''_'' @ str_int angle @ ''.png'')) \<and>
     files w' = files w \<and>
     ops w' = ops w @ [Render_render
                  (Some (distance * cos (real_of_int angle * pi / 180),
                         distance * sin (real_of_int angle * pi / 180), height))
                  (Some (0, 0, 0))
                  (path_join h output_dir (bname @ ''_'' @ str_int angle @ ''.png''))] \<and>
     out w' = out w"
  using assms
  by (simp add: render_image_def setup_camera_eq render_render_def find_obj_def Let_def
        objects_new_def bpy_call_def print_def 
        find_fresh_id find_Suc_fresh_id find_app)

section \<open>The render requests of a batch\<close>

lemma ops_put_obj: "ops (put_obj ob w) = ops w"
  by (simp add: put_obj_def)

lemma ops_print: "ops (print s w) = ops w"
  by (simp add: print_def)

lemma requests_clear_scene: "render_requests (ops (clear_scene w)) = render_requests (ops w)"
  by (simp add: clear_scene_def object_delete_def object_select_all_def bpy_call_def Let_def
        render_requests_append)

lemma requests_import_glb:
  "import_glb h f w = (r, w') \<Longrightarrow> render_requests (ops w') = render_requests (ops w)"
  by (auto simp: import_glb_def bpy_call_def render_requests_append split: option.splits)

lemma requests_object_join:
  "render_requests (ops (object_join h w)) = render_requests (ops w)"
  by (simp add: object_join_def bpy_call_def put_obj_def Let_def render_requests_append
        split: option.splits)

lemma requests_merge_all_meshes:
  "merge_all_meshes h w = (m, w') \<Longrightarrow> render_requests (ops w') = render_requests (ops w)"
  by (auto simp: merge_all_meshes_def Let_def requests_object_join object_select_all_def
        bpy_call_def print_def render_requests_append split: if_splits option.splits)

lemma requests_reduce_vertices:
  "reduce_vertices h ob t w = (r, ob', w') \<Longrightarrow> render_requests (ops w') = render_requests (ops w)"
  by (auto simp: reduce_vertices_def Let_def bpy_call_def print_def render_requests_append
        split: if_splits)

lemma requests_remove_textures:
  "remove_textures ob w = (r, ob', w') \<Longrightarrow> render_requests (ops w') = render_requests (ops w)"
  by (auto simp: remove_textures_def print_def split: if_splits prod.splits)

lemma requests_add_plane_and_light:
  "add_plane_and_light w = (hs, w') \<Longrightarrow> render_requests (ops w') = render_requests (ops w)"
  by (auto simp: add_plane_and_light_def Let_def bpy_call_def put_obj_def objects_link_def
        render_requests_append)



lemma requests_render_image:
  assumes "render_image h d b a dst ht w = (r, w')"
  shows "render_requests (ops w') = render_requests (ops w) @
           [(Some (dst * cos (real_of_int a * pi / 180), dst * sin (real_of_int a * pi / 180), ht),
             Some (0, 0, 0), path_join h d (b @ ''_'' @ str_int a @ ''.png''))]"
proof (cases "render_ok h (path_join h d (b @ ''_'' @ str_int a @ ''.png''))")
  case True
  from render_image_ok [OF True, where w = w and distance = dst and height = ht] assms show ?thesis
    by (auto simp: render_requests_append)
next
  case False
  from render_image_fail [OF False, where w = w and distance = dst and height = ht] assms show ?thesis
    by (auto simp: render_requests_append)
qed




section \<open>Assets without mesh objects\<close>

lemma objects_clear_scene: "objects (clear_scene w) = []"
  by (simp add: clear_scene_def object_delete_def object_select_all_def bpy_call_def Let_def
        filter_map comp_def)

text \<open>
  C7. When the imported scene holds no mesh object, \<open>merge_all_meshes\<close> returns \<open>None\<close>
  (no exception), the loop body prints the skip line and returns normally, no directory and
  no file is created for the asset, and the loop goes on with the remaining files.
\<close>

theorem asset_without_mesh_skipped:
  assumes "gltf_import h f = Some os" and "\<forall>x\<in>set os. otype x \<noteq> MESH"
  shows "fst (merge_all_meshes h
                (snd (import_glb h f (clear_scene (print (''Processing '' @ f @ ''...'') w))))) = None \<and>
         (\<exists>w'. process_asset h outp t a f w = (Return (), w') \<and>
                dirs w' = dirs w \<and> files w' = files w \<and>
                out w' = out w @ [''Processing '' @ f @ ''...'', ''No mesh objects to merge.'',
                                  ''No meshes found in '' @ f @ '', skipping...''] \<and>
                process_loop h outp t a (f # rest) w = process_loop h outp t a rest w')"
proof -
  let ?w1 = "clear_scene (print (''Processing '' @ f @ ''...'') w)"
  from assms(2) have nm: "filter (\<lambda>x. otype x = MESH) os = []" by (simp add: filter_empty_conv)
  have w1: "dirs ?w1 = dirs w" "files ?w1 = files w" "out ?w1 = out w @ [''Processing '' @ f @ ''...'']"
    by (simp_all add: clear_scene_def object_delete_def object_select_all_def bpy_call_def Let_def
          print_def)
  obtain w2 where i: "import_glb h f ?w1 = (Return (), w2)" and
    w2: "objects w2 = os" "dirs w2 = dirs ?w1" "files w2 = files ?w1" "out w2 = out ?w1"
    using assms(1) by (simp add: import_glb_def bpy_call_def objects_clear_scene)
  obtain w3 where m: "merge_all_meshes h w2 = (None, w3)" and
    w3: "dirs w3 = dirs w2" "files w3 = files w2" "out w3 = out w2 @ [''No mesh objects to merge.'']"
    using w2(1) nm
    by (simp add: merge_all_meshes_def Let_def object_select_all_def bpy_call_def print_def
          filter_map comp_def)
  let ?w' = "print (''No meshes found in '' @ f @ '', skipping...'') w3"
  have pa: "process_asset h outp t a f w = (Return (), ?w')"
    using i m by (simp add: process_asset_def)
  have "dirs ?w' = dirs w" "files ?w' = files w"
       "out ?w' = out w @ [''Processing '' @ f @ ''...'', ''No mesh objects to merge.'',
                            ''No meshes found in '' @ f @ '', skipping...'']"
    using w1 w2 w3 by (simp_all add: print_def)
  moreover have "process_loop h outp t a (f # rest) w = process_loop h outp t a rest ?w'"
    using pa by simp
  moreover have "fst (merge_all_meshes h (snd (import_glb h f ?w1))) = None"
    using i m by simp
  ultimately show ?thesis using pa by blast
qed

theorem asset_without_mesh_skipped_witness:
  "gltf_import camera_only_host ''in/a.glb'' = Some [demo_obj\<lparr>otype := CAMERA\<rparr>] \<and>
   otype (demo_obj\<lparr>otype := CAMERA\<rparr>) \<noteq> MESH \<and>
   fst (merge_all_meshes camera_only_host
          (snd (import_glb camera_only_host ''in/a.glb''
                  (clear_scene (print ''Processing in/a.glb...'' demo_world))))) = None \<and>
   (\<exists>w'. process_asset camera_only_host ''out'' 4 45 ''in/a.glb'' demo_world = (Return (), w') \<and>
          dirs w' = {} \<and> files w' = Map.empty \<and>
          out w' = [''Processing in/a.glb...'', ''No mesh objects to merge.'',
                    ''No meshes found in in/a.glb, skipping...''] \<and>
          process_loop camera_only_host ''out'' 4 45 [''in/a.glb'', ''in/b.glb''] demo_world =
          process_loop camera_only_host ''out'' 4 45 [''in/b.glb''] w')"
proof -
  have a: "gltf_import camera_only_host ''in/a.glb'' = Some [demo_obj\<lparr>otype := CAMERA\<rparr>]"
    by (simp add: camera_only_host_def demo_host_def)
  have b: "\<forall>x\<in>set [demo_obj\<lparr>otype := CAMERA\<rparr>]. otype x \<noteq> MESH" by simp
  show ?thesis
    using a asset_without_mesh_skipped [OF a b, where w = demo_world and outp = "''out''" and t = 4
                                          and a = 45 and rest = "[''in/b.glb'']"]
    by (simp add: demo_world_def)
qed


section \<open>The frame of \<^verbatim>\<open>render_image\<close>\<close>

lemma str_int_45: "str_int 45 = ''45''"
  by (simp add: str_int_def str_nat.simps digit_char_def)

lemma demo_ancestors_image: "demo_ancestors ''out/a/a_45.png'' = {''out'', ''out/a''}"
  by (simp add: demo_ancestors_def insert_commute)

text \<open>
  C10, as the code has it. When the render succeeds, \<open>render_image\<close> returns with the
  render filepath it found on entry and with the objects of the scene as they were: the
  camera and its target are gone again. The file system gains the picture and the
  directories above its path that the renderer had to create, and the scene camera is left
  unset.
\<close>

theorem render_image_restores_scene:
  assumes "render_ok h (path_join h output_dir (bname @ ''_'' @ str_int angle @ ''.png''))"
  shows "\<exists>w'. render_image h output_dir bname angle distance height w = (Return (), w') \<and>
     render_filepath w' = render_filepath w \<and> objects w' = objects w \<and>
     scene_camera w' = None \<and>
     dirs w' = dirs w \<union> ancestors h (path_join h output_dir (bname @ ''_'' @ str_int angle @ ''.png'')) \<and>
     files w' = (files w)(path_join h output_dir (bname @ ''_'' @ str_int angle @ ''.png'') \<mapsto> Image)"
  using render_image_ok [OF assms, where w = w and distance = distance and height = height]
  by blast

theorem render_image_restores_scene_witness:
  "render_ok demo_host (path_join demo_host ''out/a'' (''a'' @ ''_'' @ str_int 45 @ ''.png'')) \<and>
   (\<exists>w'. render_image demo_host ''out/a'' ''a'' 45 5 2 demo_world = (Return (), w') \<and>
     render_filepath w' = ''//tmp'' \<and> objects w' = [demo_obj] \<and>
     scene_camera w' = None \<and> dirs w' = {''out'', ''out/a''} \<and>
     files w' = [''out/a/a_45.png'' \<mapsto> Image])"
proof -
  have a: "render_ok demo_host (path_join demo_host ''out/a'' (''a'' @ ''_'' @ str_int 45 @ ''.png''))"
    by (simp add: demo_host_def)
  have p: "path_join demo_host ''out/a'' (''a'' @ ''_'' @ str_int 45 @ ''.png'') = ''out/a/a_45.png''"
    by (simp add: demo_host_def str_int_45)
  have d: "ancestors demo_host ''out/a/a_45.png'' = {''out'', ''out/a''}"
    by (simp add: demo_host_def demo_ancestors_image)
  show ?thesis
    using a render_image_restores_scene [OF a, where w = demo_world and distance = 5 and height = 2]
    by (simp add: p [simplified] d demo_world_def)
qed

text \<open>
  C10 as stated fails for a call whose render raises: the function is left at once, the
  render filepath stays at the picture's path and the camera and the target stay in the
  scene.
\<close>

theorem render_image_failed_render_counterexample:
  "fst (render_image failing_render_host ''out/a'' ''a'' 45 5 2 demo_world) = Raise RuntimeError \<and>
   render_filepath (snd (render_image failing_render_host ''out/a'' ''a'' 45 5 2 demo_world))
     = ''out/a/a_45.png'' \<and>
   render_filepath demo_world = ''//tmp'' \<and>
   length (objects (snd (render_image failing_render_host ''out/a'' ''a'' 45 5 2 demo_world))) = 3 \<and>
   length (objects demo_world) = 1"
proof -
  have p: "path_join failing_render_host ''out/a'' (''a'' @ ''_'' @ str_int 45 @ ''.png'') = ''out/a/a_45.png''"
    by (simp add: failing_render_host_def demo_host_def str_int_45)
  have a: "\<not> render_ok failing_render_host
               (path_join failing_render_host ''out/a'' (''a'' @ ''_'' @ str_int 45 @ ''.png''))"
    by (simp add: failing_render_host_def)
  from render_image_fail [OF a, where w = demo_world and distance = 5 and height = 2]
  show ?thesis by (auto simp: p [simplified] demo_world_def)
qed

section \<open>A single-mesh asset\<close>

lemma merge_single_mesh:
  assumes "objects w = [m0]" and "otype m0 = MESH"
      and "join_data h (m0\<lparr>select := True\<rparr>) [m0\<lparr>select := True\<rparr>] = data m0"
  shows "\<exists>w'. merge_all_meshes h w = (Some (m0\<lparr>select := True\<rparr>), w') \<and>
              out w' = out w \<and> dirs w' = dirs w \<and> files w' = files w"
  using assms
  by (simp add: merge_all_meshes_def Let_def object_select_all_def bpy_call_def object_join_def
        find_obj_def put_obj_def)

text \<open>An asset with one mesh object within the vertex budget: the stages up to the reducer.\<close>

lemma single_mesh_reduced:
  assumes imp: "gltf_import h f = Some [m0]" and mesh: "otype m0 = MESH"
      and join: "join_data h (m0\<lparr>select := True\<rparr>) [m0\<lparr>select := True\<rparr>] = data m0"
      and small: "int (length (vertices (data m0))) \<le> t"
  shows "\<exists>w2 w3 w4.
           import_glb h f (clear_scene (print (''Processing '' @ f @ ''...'') w)) = (Return (), w2) \<and>
           merge_all_meshes h w2 = (Some (m0\<lparr>select := True\<rparr>), w3) \<and>
           reduce_vertices h (m0\<lparr>select := True\<rparr>) t w3 = (Return (), m0\<lparr>select := True\<rparr>, w4) \<and>
           out w4 = out w @
             [''Processing '' @ f @ ''...'',
              ''Vertex count ('' @ str_nat (length (vertices (data m0))) @ '') is within target (''
                 @ str_int t @ '').''] \<and>
           render_requests (ops w4) = render_requests (ops w)"
proof -
  let ?m = "m0\<lparr>select := True\<rparr>"
  let ?w1 = "clear_scene (print (''Processing '' @ f @ ''...'') w)"
  have w1: "out ?w1 = out w @ [''Processing '' @ f @ ''...'']"
    by (simp add: clear_scene_def object_delete_def object_select_all_def bpy_call_def Let_def
          print_def)
  have q1: "render_requests (ops ?w1) = render_requests (ops w)"
    by (simp add: requests_clear_scene ops_print)
  obtain w2 where i: "import_glb h f ?w1 = (Return (), w2)" and
    w2: "objects w2 = [m0]" "out w2 = out ?w1"
    using imp by (simp add: import_glb_def bpy_call_def objects_clear_scene)
  from merge_single_mesh [OF w2(1) mesh join] obtain w3 where
    m: "merge_all_meshes h w2 = (Some ?m, w3)" and w3: "out w3 = out w2" by blast
  obtain w4 where rv: "reduce_vertices h ?m t w3 = (Return (), ?m, w4)" and
    w4: "out w4 = out w3 @ [''Vertex count ('' @ str_nat (length (vertices (data m0)))
                             @ '') is within target ('' @ str_int t @ '').'']"
    using mesh small by (simp add: reduce_vertices_def bpy_call_def print_def)
  have "out w4 = out w @
             [''Processing '' @ f @ ''...'',
              ''Vertex count ('' @ str_nat (length (vertices (data m0))) @ '') is within target (''
                 @ str_int t @ '').'']"
    using w1 w2 w3 w4 by simp
  moreover have "render_requests (ops w4) = render_requests (ops w)"
    using requests_import_glb [OF i] requests_merge_all_meshes [OF m]
      requests_reduce_vertices [OF rv] q1 by simp
  ultimately show ?thesis using i m rv by blast
qed

text \<open>The same asset without materials: the stages up to the helper objects.\<close>

lemma single_mesh_staged:
  assumes imp: "gltf_import h f = Some [m0]" and mesh: "otype m0 = MESH"
      and join: "join_data h (m0\<lparr>select := True\<rparr>) [m0\<lparr>select := True\<rparr>] = data m0"
      and small: "int (length (vertices (data m0))) \<le> t"
      and nomat: "materials (data m0) = []"
  shows "\<exists>w2 w3 w4 w5 w6.
           import_glb h f (clear_scene (print (''Processing '' @ f @ ''...'') w)) = (Return (), w2) \<and>
           merge_all_meshes h w2 = (Some (m0\<lparr>select := True\<rparr>), w3) \<and>
           reduce_vertices h (m0\<lparr>select := True\<rparr>) t w3 = (Return (), m0\<lparr>select := True\<rparr>, w4) \<and>
           remove_textures (m0\<lparr>select := True\<rparr>) (put_obj (m0\<lparr>select := True\<rparr>) w4)
             = (Return (), m0\<lparr>select := True\<rparr>, w5) \<and>
           snd (add_plane_and_light (put_obj (m0\<lparr>select := True\<rparr>) w5)) = w6 \<and>
           out w6 = out w @
             [''Processing '' @ f @ ''...'',
              ''Vertex count ('' @ str_nat (length (vertices (data m0))) @ '') is within target (''
                 @ str_int t @ '').'',
              ''No materials found to process.''] \<and>
           render_requests (ops w6) = render_requests (ops w)"
proof -
  let ?m = "m0\<lparr>select := True\<rparr>"
  from single_mesh_reduced [OF imp mesh join small, of w] obtain w2 w3 w4 where
    i: "import_glb h f (clear_scene (print (''Processing '' @ f @ ''...'') w)) = (Return (), w2)" and
    m: "merge_all_meshes h w2 = (Some ?m, w3)" and
    rv: "reduce_vertices h ?m t w3 = (Return (), ?m, w4)" and
    o4: "out w4 = out w @
             [''Processing '' @ f @ ''...'',
              ''Vertex count ('' @ str_nat (length (vertices (data m0))) @ '') is within target (''
                 @ str_int t @ '').'']" and
    q4: "render_requests (ops w4) = render_requests (ops w)" by blast
  obtain w5 where rt: "remove_textures ?m (put_obj ?m w4) = (Return (), ?m, w5)" and
    w5: "out w5 = out w4 @ [''No materials found to process.'']"
    using nomat by (simp add: remove_textures_def print_def put_obj_def)
  obtain hs w6 where ap: "add_plane_and_light (put_obj ?m w5) = (hs, w6)" and w6: "out w6 = out w5"
    by (simp add: add_plane_and_light_def Let_def bpy_call_def put_obj_def objects_link_def)
  have "snd (add_plane_and_light (put_obj ?m w5)) = w6" using ap by simp
  moreover have "out w6 = out w @
             [''Processing '' @ f @ ''...'',
              ''Vertex count ('' @ str_nat (length (vertices (data m0))) @ '') is within target (''
                 @ str_int t @ '').'',
              ''No materials found to process.'']"
    using o4 w5 w6 by simp
  moreover have "render_requests (ops w6) = render_requests (ops w)"
    using requests_remove_textures [OF rt] requests_add_plane_and_light [OF ap] q4
    by (simp add: ops_put_obj)
  ultimately show ?thesis using i m rv rt by blast
qed

section \<open>Failures during a batch\<close>

lemma process_loop_append:
  "process_loop h outp t a (xs @ ys) w =
     (case process_loop h outp t a xs w of
        (Raise e, w') \<Rightarrow> (Raise e, w')
      | (Return u, w') \<Rightarrow> process_loop h outp t a ys w')"
  by (induction xs arbitrary: w) (auto split: prod.splits result.splits)

lemma batch_at_file:
  assumes "makedirs_ok h outp" and "glob_glb h inp = pre @ f # rest"
      and "process_loop h outp t a pre (snd (makedirs h outp w)) = (Return (), w0)"
  shows "process_glb_files h inp outp t (Some a) w =
           (case process_asset h outp t a f w0 of
              (Raise e, w') \<Rightarrow> (Raise e, w')
            | (Return u, w') \<Rightarrow> process_loop h outp t a rest w')"
  using assms by (simp add: process_glb_files_def makedirs_def process_loop_append)

text \<open>
  C1, as the code has it. Nothing in the loop catches an exception. At every file of the
  batch, whichever stage raises (the import, the vertex reducer, the material stripper, the
  creation of the output folder, the render or the JSON export), \<^verbatim>\<open>process_glb_files\<close>
  raises the same exception in the world of that moment, and the files after it are not
  processed. The batch goes on with the remaining files in two cases only: the scene has
  no mesh object (the skip), or every stage has returned.
\<close>

theorem stage_failure_ends_batch:
  assumes "makedirs_ok h outp" and "glob_glb h inp = pre @ f # rest"
      and "process_loop h outp t a pre (snd (makedirs h outp w)) = (Return (), w0)"
  shows
   "(import_glb h f (clear_scene (print (''Processing '' @ f @ ''...'') w0)) = (Raise e, w2) \<longrightarrow>
       process_glb_files h inp outp t (Some a) w = (Raise e, w2)) \<and>
    (import_glb h f (clear_scene (print (''Processing '' @ f @ ''...'') w0)) = (Return (), w2) \<longrightarrow>
       (merge_all_meshes h w2 = (None, w3) \<longrightarrow>
          process_glb_files h inp outp t (Some a) w =
            process_loop h outp t a rest
              (print (''No meshes found in '' @ f @ '', skipping...'') w3)) \<and>
       (merge_all_meshes h w2 = (Some m, w3) \<longrightarrow>
          (reduce_vertices h m t w3 = (Raise e, o1, w4) \<longrightarrow>
             process_glb_files h inp outp t (Some a) w = (Raise e, put_obj o1 w4)) \<and>
          (reduce_vertices h m t w3 = (Return (), o1, w4) \<longrightarrow>
             (remove_textures o1 (put_obj o1 w4) = (Raise e, o2, w5) \<longrightarrow>
                process_glb_files h inp outp t (Some a) w = (Raise e, put_obj o2 w5)) \<and>
             (remove_textures o1 (put_obj o1 w4) = (Return (), o2, w5) \<longrightarrow>
                (makedirs h (path_join h outp (base_name h f))
                   (snd (add_plane_and_light (put_obj o2 w5))) = (Raise e, w7) \<longrightarrow>
                   process_glb_files h inp outp t (Some a) w = (Raise e, w7)) \<and>
                (makedirs h (path_join h outp (base_name h f))
                   (snd (add_plane_and_light (put_obj o2 w5))) = (Return (), w7) \<longrightarrow>
                   (render_image h (path_join h outp (base_name h f)) (base_name h f) a
                      default_distance default_height w7 = (Raise e, w8) \<longrightarrow>
                      process_glb_files h inp outp t (Some a) w = (Raise e, w8)) \<and>
                   (render_image h (path_join h outp (base_name h f)) (base_name h f) a
                      default_distance default_height w7 = (Return (), w8) \<longrightarrow>
                      (export_to_json h o2
                         (path_join h (path_join h outp (base_name h f)) (base_name h f @ ''.json''))
                         w8 = (Raise e, w9) \<longrightarrow>
                         process_glb_files h inp outp t (Some a) w = (Raise e, w9)) \<and>
                      (export_to_json h o2
                         (path_join h (path_join h outp (base_name h f)) (base_name h f @ ''.json''))
                         w8 = (Return (), w9) \<longrightarrow>
                         process_glb_files h inp outp t (Some a) w =
                           process_loop h outp t a rest w9)))))))"
  by (simp add: batch_at_file [OF assms] process_asset_def Let_def split_beta)


theorem stage_failure_ends_batch_witness:
  "makedirs_ok failing_render_host ''out'' \<and>
   glob_glb failing_render_host ''in'' = [] @ ''in/a.glb'' # [''in/b.glb''] \<and>
   fst (process_glb_files failing_import_host ''in'' ''out'' 4 (Some 45) demo_world) = Raise RuntimeError \<and>
   fst (process_glb_files empty_slot_host ''in'' ''out'' 4 (Some 45) demo_world) = Raise AttributeError \<and>
   fst (process_glb_files failing_makedirs_host ''in'' ''out'' 4 (Some 45) demo_world) = Raise OSError \<and>
   fst (process_glb_files failing_render_host ''in'' ''out'' 4 (Some 45) demo_world) = Raise RuntimeError \<and>
   fst (process_glb_files failing_open_host ''in'' ''out'' 4 (Some 45) demo_world) = Raise OSError"
proof -
  have "makedirs_ok failing_render_host ''out''"
    by (simp add: failing_render_host_def demo_host_def)
  moreover have "glob_glb failing_render_host ''in'' = [] @ ''in/a.glb'' # [''in/b.glb'']"
    by (simp add: failing_render_host_def demo_host_def)
  moreover
  have "fst (process_glb_files failing_import_host ''in'' ''out'' 4 (Some 45) demo_world) = Raise RuntimeError"
  proof -
    let ?w0 = "snd (makedirs failing_import_host ''out'' demo_world)"
    let ?M = "demo_obj\<lparr>select := True\<rparr>"
    have mk: "makedirs_ok failing_import_host ''out''" by (simp add: failing_import_host_def demo_host_def)
    have gl: "glob_glb failing_import_host ''in'' = [] @ ''in/a.glb'' # [''in/b.glb'']"
      by (simp add: failing_import_host_def demo_host_def)
    have pr: "process_loop failing_import_host ''out'' 4 45 [] ?w0 = (Return (), ?w0)" by simp
    note T = stage_failure_ends_batch [OF mk gl pr]
    have i: "import_glb failing_import_host ''in/a.glb'' (clear_scene (print (''Processing '' @ ''in/a.glb'' @ ''...'') ?w0))
               = (Raise RuntimeError,
                  bpy_call (Import_scene_gltf ''in/a.glb'')
                    (clear_scene (print (''Processing '' @ ''in/a.glb'' @ ''...'') ?w0)))"
      by (simp add: import_glb_def failing_import_host_def)
    from T [THEN conjunct1, rule_format, OF i] show ?thesis by simp
  qed
  moreover
  have "fst (process_glb_files empty_slot_host ''in'' ''out'' 4 (Some 45) demo_world) = Raise AttributeError"
  proof -
    let ?w0 = "snd (makedirs empty_slot_host ''out'' demo_world)"
    let ?M = "(with_materials [None] demo_obj)\<lparr>select := True\<rparr>"
    have mk: "makedirs_ok empty_slot_host ''out''" by (simp add: empty_slot_host_def demo_host_def)
    have gl: "glob_glb empty_slot_host ''in'' = [] @ ''in/a.glb'' # [''in/b.glb'']"
      by (simp add: empty_slot_host_def demo_host_def)
    have pr: "process_loop empty_slot_host ''out'' 4 45 [] ?w0 = (Return (), ?w0)" by simp
    note T = stage_failure_ends_batch [OF mk gl pr]
    from single_mesh_reduced [where h = empty_slot_host and f = "''in/a.glb''" and ?m0.0 = "with_materials [None] demo_obj"
                                and t = 4 and w = ?w0]
    obtain w2 w3 w4 where
      i: "import_glb empty_slot_host ''in/a.glb'' (clear_scene (print (''Processing '' @ ''in/a.glb'' @ ''...'') ?w0))
            = (Return (), w2)" and
      m: "merge_all_meshes empty_slot_host w2 = (Some ?M, w3)" and
      rv: "reduce_vertices empty_slot_host ?M 4 w3 = (Return (), ?M, w4)"
      by (auto simp: empty_slot_host_def demo_host_def demo_obj_def demo_mesh_def with_materials_def)
    note T4 = T [THEN conjunct2, rule_format, OF i, THEN conjunct2, rule_format, OF m,
                 THEN conjunct2, rule_format, OF rv]

    have "fst (remove_textures ?M (put_obj ?M w4)) = Raise AttributeError"
      by (simp add: remove_textures_def with_materials_def)
    then obtain o2 w5 where rt: "remove_textures ?M (put_obj ?M w4) = (Raise AttributeError, o2, w5)"
      by (cases "remove_textures ?M (put_obj ?M w4)") auto
    from T4 [THEN conjunct1, rule_format, OF rt] show ?thesis by simp
  qed
  moreover
  have "fst (process_glb_files failing_makedirs_host ''in'' ''out'' 4 (Some 45) demo_world) = Raise OSError"
  proof -
    let ?w0 = "snd (makedirs failing_makedirs_host ''out'' demo_world)"
    let ?M = "demo_obj\<lparr>select := True\<rparr>"
    have mk: "makedirs_ok failing_makedirs_host ''out''" by (simp add: failing_makedirs_host_def demo_host_def)
    have gl: "glob_glb failing_makedirs_host ''in'' = [] @ ''in/a.glb'' # [''in/b.glb'']"
      by (simp add: failing_makedirs_host_def demo_host_def)
    have pr: "process_loop failing_makedirs_host ''out'' 4 45 [] ?w0 = (Return (), ?w0)" by simp
    note T = stage_failure_ends_batch [OF mk gl pr]
    from single_mesh_staged [where h = failing_makedirs_host and f = "''in/a.glb''" and ?m0.0 = demo_obj
                               and t = 4 and w = ?w0]
    obtain w2 w3 w4 w5 where
      i: "import_glb failing_makedirs_host ''in/a.glb'' (clear_scene (print (''Processing '' @ ''in/a.glb'' @ ''...'') ?w0))
            = (Return (), w2)" and
      m: "merge_all_meshes failing_makedirs_host w2 = (Some ?M, w3)" and
      rv: "reduce_vertices failing_makedirs_host ?M 4 w3 = (Return (), ?M, w4)" and
      rt: "remove_textures ?M (put_obj ?M w4) = (Return (), ?M, w5)"
      by (auto simp: failing_makedirs_host_def demo_host_def demo_obj_def demo_mesh_def)
    note T5 = T [THEN conjunct2, rule_format, OF i, THEN conjunct2, rule_format, OF m,
                 THEN conjunct2, rule_format, OF rv, THEN conjunct2, rule_format, OF rt]
    let ?w6 = "snd (add_plane_and_light (put_obj ?M w5))"
    let ?folder = "path_join failing_makedirs_host ''out'' (base_name failing_makedirs_host ''in/a.glb'')"

    have "fst (makedirs failing_makedirs_host ?folder ?w6) = Raise OSError"
      by (simp add: makedirs_def failing_makedirs_host_def demo_host_def demo_base_name_def)
    then obtain w7 where md: "makedirs failing_makedirs_host ?folder ?w6 = (Raise OSError, w7)"
      by (cases "makedirs failing_makedirs_host ?folder ?w6") auto
    from T5 [THEN conjunct1, rule_format, OF md] show ?thesis by simp
  qed
  moreover
  have "fst (process_glb_files failing_render_host ''in'' ''out'' 4 (Some 45) demo_world) = Raise RuntimeError"
  proof -
    let ?w0 = "snd (makedirs failing_render_host ''out'' demo_world)"
    let ?M = "demo_obj\<lparr>select := True\<rparr>"
    have mk: "makedirs_ok failing_render_host ''out''" by (simp add: failing_render_host_def demo_host_def)
    have gl: "glob_glb failing_render_host ''in'' = [] @ ''in/a.glb'' # [''in/b.glb'']"
      by (simp add: failing_render_host_def demo_host_def)
    have pr: "process_loop failing_render_host ''out'' 4 45 [] ?w0 = (Return (), ?w0)" by simp
    note T = stage_failure_ends_batch [OF mk gl pr]
    from single_mesh_staged [where h = failing_render_host and f = "''in/a.glb''" and ?m0.0 = demo_obj
                               and t = 4 and w = ?w0]
    obtain w2 w3 w4 w5 where
      i: "import_glb failing_render_host ''in/a.glb'' (clear_scene (print (''Processing '' @ ''in/a.glb'' @ ''...'') ?w0))
            = (Return (), w2)" and
      m: "merge_all_meshes failing_render_host w2 = (Some ?M, w3)" and
      rv: "reduce_vertices failing_render_host ?M 4 w3 = (Return (), ?M, w4)" and
      rt: "remove_textures ?M (put_obj ?M w4) = (Return (), ?M, w5)"
      by (auto simp: failing_render_host_def demo_host_def demo_obj_def demo_mesh_def)
    note T5 = T [THEN conjunct2, rule_format, OF i, THEN conjunct2, rule_format, OF m,
                 THEN conjunct2, rule_format, OF rv, THEN conjunct2, rule_format, OF rt]
    let ?w6 = "snd (add_plane_and_light (put_obj ?M w5))"
    let ?folder = "path_join failing_render_host ''out'' (base_name failing_render_host ''in/a.glb'')"
    obtain w7 where md: "makedirs failing_render_host ?folder ?w6 = (Return (), w7)"
      by (simp add: makedirs_def failing_render_host_def demo_host_def)
    note T6 = T5 [THEN conjunct2, rule_format, OF md]

    have nr: "\<not> render_ok failing_render_host (path_join failing_render_host ?folder (base_name failing_render_host ''in/a.glb'' @ ''_'' @ str_int 45 @ ''.png''))"
      by (simp add: failing_render_host_def)
    from render_image_fail [OF nr, where w = w7 and distance = default_distance and height = default_height]
    obtain w8 where ri: "render_image failing_render_host ?folder (base_name failing_render_host ''in/a.glb'') 45 default_distance
                           default_height w7 = (Raise RuntimeError, w8)" by blast
    from T6 [THEN conjunct1, rule_format, OF ri] show ?thesis by simp
  qed
  moreover
  have "fst (process_glb_files failing_open_host ''in'' ''out'' 4 (Some 45) demo_world) = Raise OSError"
  proof -
    let ?w0 = "snd (makedirs failing_open_host ''out'' demo_world)"
    let ?M = "demo_obj\<lparr>select := True\<rparr>"
    have mk: "makedirs_ok failing_open_host ''out''" by (simp add: failing_open_host_def demo_host_def)
    have gl: "glob_glb failing_open_host ''in'' = [] @ ''in/a.glb'' # [''in/b.glb'']"
      by (simp add: failing_open_host_def demo_host_def)
    have pr: "process_loop failing_open_host ''out'' 4 45 [] ?w0 = (Return (), ?w0)" by simp
    note T = stage_failure_ends_batch [OF mk gl pr]
    from single_mesh_staged [where h = failing_open_host and f = "''in/a.glb''" and ?m0.0 = demo_obj
                               and t = 4 and w = ?w0]
    obtain w2 w3 w4 w5 where
      i: "import_glb failing_open_host ''in/a.glb'' (clear_scene (print (''Processing '' @ ''in/a.glb'' @ ''...'') ?w0))
            = (Return (), w2)" and
      m: "merge_all_meshes failing_open_host w2 = (Some ?M, w3)" and
      rv: "reduce_vertices failing_open_host ?M 4 w3 = (Return (), ?M, w4)" and
      rt: "remove_textures ?M (put_obj ?M w4) = (Return (), ?M, w5)"
      by (auto simp: failing_open_host_def demo_host_def demo_obj_def demo_mesh_def)
    note T5 = T [THEN conjunct2, rule_format, OF i, THEN conjunct2, rule_format, OF m,
                 THEN conjunct2, rule_format, OF rv, THEN conjunct2, rule_format, OF rt]
    let ?w6 = "snd (add_plane_and_light (put_obj ?M w5))"
    let ?folder = "path_join failing_open_host ''out'' (base_name failing_open_host ''in/a.glb'')"
    obtain w7 where md: "makedirs failing_open_host ?folder ?w6 = (Return (), w7)"
      by (simp add: makedirs_def failing_open_host_def demo_host_def)
    note T6 = T5 [THEN conjunct2, rule_format, OF md]

    have rn: "render_ok failing_open_host (path_join failing_open_host ?folder (base_name failing_open_host ''in/a.glb'' @ ''_'' @ str_int 45 @ ''.png''))"
      by (simp add: failing_open_host_def demo_host_def)
    from render_image_ok [OF rn, where w = w7 and distance = default_distance and height = default_height]
    obtain w8 where ri: "render_image failing_open_host ?folder (base_name failing_open_host ''in/a.glb'') 45 default_distance
                           default_height w7 = (Return (), w8)" by blast
    note T7 = T6 [THEN conjunct2, rule_format, OF ri]
    have ex: "export_to_json failing_open_host ?M (path_join failing_open_host ?folder (base_name failing_open_host ''in/a.glb'' @ ''.json'')) w8
                = (Raise OSError, w8)"
      by (simp add: export_to_json_def failing_open_host_def Let_def)
    from T7 [THEN conjunct1, rule_format, OF ex] show ?thesis by simp
  qed
  ultimately show ?thesis by blast
qed

text \<open>The same asset where the folder can be made and the render succeeds: up to the export.\<close>

lemma single_mesh_asset:
  assumes imp: "gltf_import h f = Some [m0]" and mesh: "otype m0 = MESH"
      and join: "join_data h (m0\<lparr>select := True\<rparr>) [m0\<lparr>select := True\<rparr>] = data m0"
      and small: "int (length (vertices (data m0))) \<le> t"
      and nomat: "materials (data m0) = []"
      and mk: "makedirs_ok h (path_join h outp (base_name h f))"
      and rn: "render_ok h (path_join h (path_join h outp (base_name h f))
                              (base_name h f @ ''_'' @ str_int a @ ''.png''))"
  shows "\<exists>w8. process_asset h outp t a f w =
                 export_to_json h (m0\<lparr>select := True\<rparr>)
                   (path_join h (path_join h outp (base_name h f)) (base_name h f @ ''.json'')) w8 \<and>
              out w8 = out w @
                [''Processing '' @ f @ ''...'',
                 ''Vertex count ('' @ str_nat (length (vertices (data m0))) @ '') is within target (''
                    @ str_int t @ '').'',
                 ''No materials found to process.'',
                 ''Rendered image saved as '' @
                    path_join h (path_join h outp (base_name h f)) (base_name h f @ ''_'' @ str_int a @ ''.png'')] \<and>
              render_requests (ops w8) = render_requests (ops w) @
                [(Some (5 * cos (real_of_int a * pi / 180), 5 * sin (real_of_int a * pi / 180), 2),
                  Some (0, 0, 0),
                  path_join h (path_join h outp (base_name h f))
                    (base_name h f @ ''_'' @ str_int a @ ''.png''))]"
proof -
  let ?m = "m0\<lparr>select := True\<rparr>"
  let ?folder = "path_join h outp (base_name h f)"
  from single_mesh_staged [OF imp mesh join small nomat, of w] obtain w2 w3 w4 w5 w6 where
    i: "import_glb h f (clear_scene (print (''Processing '' @ f @ ''...'') w)) = (Return (), w2)" and
    m: "merge_all_meshes h w2 = (Some ?m, w3)" and
    rv: "reduce_vertices h ?m t w3 = (Return (), ?m, w4)" and
    rt: "remove_textures ?m (put_obj ?m w4) = (Return (), ?m, w5)" and
    ap: "snd (add_plane_and_light (put_obj ?m w5)) = w6" and
    o6: "out w6 = out w @
             [''Processing '' @ f @ ''...'',
              ''Vertex count ('' @ str_nat (length (vertices (data m0))) @ '') is within target (''
                 @ str_int t @ '').'',
              ''No materials found to process.'']" and
    q6: "render_requests (ops w6) = render_requests (ops w)" by blast
  obtain w7 where md: "makedirs h ?folder w6 = (Return (), w7)" and
    w7: "out w7 = out w6" "ops w7 = ops w6"
    using mk by (simp add: makedirs_def)
  from render_image_ok [OF rn, where w = w7 and distance = default_distance and height = default_height]
  obtain w8 where ri: "render_image h ?folder (base_name h f) a default_distance default_height w7
                         = (Return (), w8)" and
    w8: "out w8 = out w7 @ [''Rendered image saved as '' @
                    path_join h ?folder (base_name h f @ ''_'' @ str_int a @ ''.png'')]"
    by blast
  have "process_asset h outp t a f w =
          export_to_json h ?m (path_join h ?folder (base_name h f @ ''.json'')) w8"
    using i m rv rt ap md ri by (simp add: process_asset_def Let_def split_beta)
  moreover have "out w8 = out w @
                [''Processing '' @ f @ ''...'',
                 ''Vertex count ('' @ str_nat (length (vertices (data m0))) @ '') is within target (''
                    @ str_int t @ '').'',
                 ''No materials found to process.'',
                 ''Rendered image saved as '' @
                    path_join h ?folder (base_name h f @ ''_'' @ str_int a @ ''.png'')]"
    using o6 w7 w8 by simp
  moreover have "render_requests (ops w8) = render_requests (ops w) @
                [(Some (5 * cos (real_of_int a * pi / 180), 5 * sin (real_of_int a * pi / 180), 2),
                  Some (0, 0, 0),
                  path_join h ?folder (base_name h f @ ''_'' @ str_int a @ ''.png''))]"
    using requests_render_image [OF ri] q6 w7
    by (simp add: default_distance_def default_height_def)
  ultimately show ?thesis by blast
qed

lemma failing_export_asset:
  "\<exists>w'. process_asset failing_open_host ''out'' 4 45 ''in/a.glb'' w = (Raise OSError, w') \<and>
         out w' = out w @ [''Processing in/a.glb...'', ''Vertex count (4) is within target (4).'',
                           ''No materials found to process.'',
                           ''Rendered image saved as out/a/a_45.png'']"
proof -
  have "\<exists>w8. process_asset failing_open_host ''out'' 4 45 ''in/a.glb'' w =
                 export_to_json failing_open_host (demo_obj\<lparr>select := True\<rparr>) ''out/a/a.json'' w8 \<and>
              out w8 = out w @ [''Processing in/a.glb...'', ''Vertex count (4) is within target (4).'',
                           ''No materials found to process.'',
                           ''Rendered image saved as out/a/a_45.png''] \<and>
              render_requests (ops w8) = render_requests (ops w) @
                [(Some (5 * cos (45 * pi / 180), 5 * sin (45 * pi / 180), 2), Some (0, 0, 0),
                  ''out/a/a_45.png'')]"
    using single_mesh_asset [where h = failing_open_host and f = "''in/a.glb''" and ?m0.0 = demo_obj
                               and t = 4 and outp = "''out''" and a = 45 and w = w]
    by (simp add: failing_open_host_def demo_host_def demo_obj_def demo_mesh_def demo_base_name_def
          str_int_def str_nat.simps digit_char_def)
  then show ?thesis
    by (auto simp: export_to_json_def failing_open_host_def Let_def)
qed

text \<open>
  C1 as stated fails: with two input files and a JSON file that cannot be opened for the
  first, the batch ends with OSError and the second file is never started.
\<close>

theorem batch_aborted_by_export_failure_counterexample:
  "glob_glb failing_open_host ''in'' = [''in/a.glb'', ''in/b.glb''] \<and>
   fst (process_glb_files failing_open_host ''in'' ''out'' 4 (Some 45) demo_world) = Raise OSError \<and>
   out (snd (process_glb_files failing_open_host ''in'' ''out'' 4 (Some 45) demo_world)) =
     [''Processing in/a.glb...'', ''Vertex count (4) is within target (4).'',
      ''No materials found to process.'', ''Rendered image saved as out/a/a_45.png'']"
proof -
  let ?w0 = "snd (makedirs failing_open_host ''out'' demo_world)"
  have o0: "out ?w0 = []" by (simp add: makedirs_def demo_world_def)
  obtain w' where p: "process_asset failing_open_host ''out'' 4 45 ''in/a.glb'' ?w0 = (Raise OSError, w')"
    and o: "out w' = out ?w0 @ [''Processing in/a.glb...'', ''Vertex count (4) is within target (4).'',
                           ''No materials found to process.'',
                           ''Rendered image saved as out/a/a_45.png'']"
    using failing_export_asset [of ?w0] by blast
  have mk: "makedirs_ok failing_open_host ''out''" by (simp add: failing_open_host_def demo_host_def)
  have gl: "glob_glb failing_open_host ''in'' = [] @ ''in/a.glb'' # [''in/b.glb'']"
    by (simp add: failing_open_host_def demo_host_def)
  have pr: "process_loop failing_open_host ''out'' 4 45 [] ?w0 = (Return (), ?w0)" by simp
  have "process_glb_files failing_open_host ''in'' ''out'' 4 (Some 45) demo_world = (Raise OSError, w')"
    using batch_at_file [OF mk gl pr] p by simp
  with o o0 gl show ?thesis by simp
qed

section \<open>A batch of two files\<close>



section \<open>Properties of \<^verbatim>\<open>export_to_json\<close>\<close>

lemma foldl_snoc_map: "foldl (\<lambda>acc x. acc @ [g x]) a xs = a @ map g xs"
  by (induction xs arbitrary: a) simp_all

lemma export_data_eq:
  "export_data h obj =
     JDict [(''n'', JString ''airplane''),
            (''l'', rounded_triple (location obj)),
            (''r'', rounded_triple (rotation_euler obj)),
            (''s'', rounded_triple (scale obj)),
            (''v'', JList (map (\<lambda>co. rounded_triple (matmul h (matrix_world obj) co))
                             (vertices (data obj)))),
            (''e'', JList (map (\<lambda>edge. JList [JInt (int (fst edge)), JInt (int (snd edge))])
                             (edges (data obj)))),
            (''f'', JList (map (\<lambda>face. JList (map (\<lambda>i. JInt (int i)) face))
                             (polygons (data obj))))]"
  by (simp add: export_data_def Let_def foldl_snoc_map)

lemma export_to_json_writes:
  "open_ok h path \<Longrightarrow>
     fst (export_to_json h obj path w) = Return () \<and>
     files (snd (export_to_json h obj path w)) path = Some (Json_text (export_data h obj))"
  by (simp add: export_to_json_def Let_def print_def)

lemma round_half_even_near: "\<bar>of_int (round_half_even y) - y\<bar> \<le> 1 / 2"
proof -
  have "of_int \<lfloor>y\<rfloor> \<le> y" "y < of_int \<lfloor>y\<rfloor> + 1" by linarith+
  then show ?thesis by (auto simp: round_half_even_def Let_def)
qed

lemma py_round_4_multiple: "py_round x 4 = of_int (round_half_even (x * 10000)) / 10000"
  by (simp add: py_round_def)

lemma py_round_4_near: "\<bar>py_round x 4 - x\<bar> \<le> 1 / 20000"
proof -
  from round_half_even_near [of "x * 10000"]
  have "\<bar>of_int (round_half_even (x * 10000)) - x * 10000\<bar> \<le> 1 / 2" .
  then have "\<bar>(of_int (round_half_even (x * 10000)) - x * 10000) / 10000\<bar> \<le> (1 / 2) / 10000"
    by (simp add: abs_divide del: times_divide_eq_left)
  then show ?thesis by (simp add: py_round_4_multiple diff_divide_distrib)
qed

lemma floats_rounded_triple:
  "x \<in> set (json_floats (rounded_triple p)) \<Longrightarrow> \<exists>y. x = py_round y 4"
  by (cases p) (auto simp: rounded_triple_def)

lemma floats_export_data:
  "x \<in> set (json_floats (export_data h obj)) \<Longrightarrow> \<exists>y. x = py_round y 4"
  by (auto simp: export_data_eq dest: floats_rounded_triple)

lemma floats_export_data_rounded:
  assumes "x \<in> set (json_floats (export_data h obj))"
  shows "\<exists>y. x = py_round y 4 \<and> (\<exists>k::int. x = of_int k / 10000) \<and> \<bar>x - y\<bar> \<le> 1 / 20000"
proof -
  from floats_export_data [OF assms] obtain y where y: "x = py_round y 4" by blast
  then have "\<exists>k::int. x = of_int k / 10000" using py_round_4_multiple by blast
  moreover have "\<bar>x - y\<bar> \<le> 1 / 20000" using y py_round_4_near by simp
  ultimately show ?thesis using y by blast
qed

text \<open>
  C4. When the file can be opened, the record written to it has, in \<^verbatim>\<open>"v"\<close>, for every
  vertex the product of the object's world matrix and the local coordinate, rounded; its
  \<^verbatim>\<open>"l"\<close>, \<^verbatim>\<open>"r"\<close> and \<^verbatim>\<open>"s"\<close> are the rounded location, rotation and scale. Every float
  of the written record is a value \<open>round(y, 4)\<close>: a multiple of \<open>10\<^sup>-\<^sup>4\<close> at most
  \<open>0.00005\<close> away from \<open>y\<close>.
\<close>

theorem export_to_json_world_space_rounded:
  assumes "open_ok h path"
  shows "fst (export_to_json h obj path w) = Return () \<and>
    (\<exists>d. files (snd (export_to_json h obj path w)) path = Some (Json_text d) \<and>
      json_get d ''v'' =
        Some (JList (map (\<lambda>co. case matmul h (matrix_world obj) co of
                               (x, y, z) \<Rightarrow> JList [JFloat (py_round x 4), JFloat (py_round y 4),
                                                    JFloat (py_round z 4)])
                      (vertices (data obj)))) \<and>
      json_get d ''l'' =
        Some (case location obj of
             (x, y, z) \<Rightarrow> JList [JFloat (py_round x 4), JFloat (py_round y 4), JFloat (py_round z 4)]) \<and>
      json_get d ''r'' =
        Some (case rotation_euler obj of
             (x, y, z) \<Rightarrow> JList [JFloat (py_round x 4), JFloat (py_round y 4), JFloat (py_round z 4)]) \<and>
      json_get d ''s'' =
        Some (case scale obj of
             (x, y, z) \<Rightarrow> JList [JFloat (py_round x 4), JFloat (py_round y 4), JFloat (py_round z 4)]) \<and>
      (\<forall>x\<in>set (json_floats d).
         \<exists>y. x = py_round y 4 \<and> (\<exists>k::int. x = of_int k / 10000) \<and> \<bar>x - y\<bar> \<le> 1 / 20000))"
proof -
  let ?d = "export_data h obj"
  have rt: "rounded_triple = (\<lambda>p. case p of (x, y, z) \<Rightarrow>
          JList [JFloat (py_round x 4), JFloat (py_round y 4), JFloat (py_round z 4)])"
    by (rule ext) (simp add: rounded_triple_def)
  have w: "fst (export_to_json h obj path w) = Return ()"
          "files (snd (export_to_json h obj path w)) path = Some (Json_text ?d)"
    using export_to_json_writes [OF assms] by simp_all
  have v: "json_get ?d ''v'' =
        Some (JList (map (\<lambda>co. case matmul h (matrix_world obj) co of
                               (x, y, z) \<Rightarrow> JList [JFloat (py_round x 4), JFloat (py_round y 4),
                                                    JFloat (py_round z 4)])
                      (vertices (data obj))))"
    by (simp add: export_data_eq json_get_def rt)
  have l: "json_get ?d ''l'' =
        Some (case location obj of
             (x, y, z) \<Rightarrow> JList [JFloat (py_round x 4), JFloat (py_round y 4), JFloat (py_round z 4)])"
    by (simp add: export_data_eq json_get_def rounded_triple_def)
  have r: "json_get ?d ''r'' =
        Some (case rotation_euler obj of
             (x, y, z) \<Rightarrow> JList [JFloat (py_round x 4), JFloat (py_round y 4), JFloat (py_round z 4)])"
    by (simp add: export_data_eq json_get_def rounded_triple_def)
  have s: "json_get ?d ''s'' =
        Some (case scale obj of
             (x, y, z) \<Rightarrow> JList [JFloat (py_round x 4), JFloat (py_round y 4), JFloat (py_round z 4)])"
    by (simp add: export_data_eq json_get_def rounded_triple_def)
  have f: "\<forall>x\<in>set (json_floats ?d).
         \<exists>y. x = py_round y 4 \<and> (\<exists>k::int. x = of_int k / 10000) \<and> \<bar>x - y\<bar> \<le> 1 / 20000"
    using floats_export_data_rounded by blast
  from w v l r s f show ?thesis by blast
qed

lemma py_round_examples:
  "py_round 0 4 = 0" "py_round 1 4 = 1" "py_round 2 4 = 2" "py_round 3 4 = 3"
  "py_round (33 / 32) 4 = 10312 / 10000" "py_round (3 / 32) 4 = 938 / 10000"
  "py_round (1 / 16) 4 = 625 / 10000"
  by (simp_all add: py_round_def round_half_even_def Let_def)

lemma demo_export_data:
  "export_data demo_host demo_placed_obj =
     JDict [(''n'', JString ''airplane''),
            (''l'', JList [JFloat 1, JFloat 0, JFloat 0]),
            (''r'', JList [JFloat 0, JFloat 0, JFloat 0]),
            (''s'', JList [JFloat 2, JFloat 2, JFloat 2]),
            (''v'', JList [JList [JFloat 1, JFloat 0, JFloat 0],
                           JList [JFloat 3, JFloat 0, JFloat 0],
                           JList [JFloat 1, JFloat 2, JFloat 0],
                           JList [JFloat (10312 / 10000), JFloat (938 / 10000), JFloat (625 / 10000)]]),
            (''e'', JList [JList [JInt 0, JInt 1], JList [JInt 1, JInt 2], JList [JInt 2, JInt 0]]),
            (''f'', JList [JList [JInt 0, JInt 1, JInt 2]])]"
  by (simp add: export_data_eq rounded_triple_def demo_placed_obj_def demo_obj_def demo_mesh_def
        demo_host_def exact_mat_vec_def py_round_examples)

theorem export_to_json_world_space_rounded_witness:
  "open_ok demo_host ''out/a/a.json'' \<and>
   fst (export_to_json demo_host demo_placed_obj ''out/a/a.json'' demo_world) = Return () \<and>
   (\<exists>d. files (snd (export_to_json demo_host demo_placed_obj ''out/a/a.json'' demo_world)) ''out/a/a.json''
          = Some (Json_text d) \<and>
        json_get d ''v'' =
          Some (JList [JList [JFloat 1, JFloat 0, JFloat 0],
                       JList [JFloat 3, JFloat 0, JFloat 0],
                       JList [JFloat 1, JFloat 2, JFloat 0],
                       JList [JFloat (10312 / 10000), JFloat (938 / 10000), JFloat (625 / 10000)]]) \<and>
        json_get d ''l'' = Some (JList [JFloat 1, JFloat 0, JFloat 0]) \<and>
        json_get d ''r'' = Some (JList [JFloat 0, JFloat 0, JFloat 0]) \<and>
        json_get d ''s'' = Some (JList [JFloat 2, JFloat 2, JFloat 2]) \<and>
        10312 / 10000 \<in> set (json_floats d) \<and>
        (\<exists>y. (10312 / 10000 :: real) = py_round y 4 \<and> \<bar>10312 / 10000 - y\<bar> \<le> 1 / 20000))"
proof -
  have a: "open_ok demo_host ''out/a/a.json''" by (simp add: demo_host_def)
  from export_to_json_world_space_rounded [OF a, where obj = demo_placed_obj and w = demo_world]
  obtain d where r: "fst (export_to_json demo_host demo_placed_obj ''out/a/a.json'' demo_world) = Return ()"
    and d: "files (snd (export_to_json demo_host demo_placed_obj ''out/a/a.json'' demo_world)) ''out/a/a.json''
              = Some (Json_text d)"
    and f: "\<forall>x\<in>set (json_floats d).
         \<exists>y. x = py_round y 4 \<and> (\<exists>k::int. x = of_int k / 10000) \<and> \<bar>x - y\<bar> \<le> 1 / 20000"
    by blast
  from d export_to_json_writes [OF a, of demo_placed_obj demo_world]
  have e: "d = export_data demo_host demo_placed_obj" by simp
  have m: "10312 / 10000 \<in> set (json_floats d)" by (simp add: e demo_export_data)
  with f have "\<exists>y. (10312 / 10000 :: real) = py_round y 4 \<and> \<bar>10312 / 10000 - y\<bar> \<le> 1 / 20000"
    by blast
  with a r d m show ?thesis by (auto simp: e demo_export_data json_get_def)
qed

section \<open>The written JSON file\<close>

lemma digit_char_not_dot: "d < 10 \<Longrightarrow> digit_char d \<noteq> CHR ''.''"
proof -
  assume "d < 10"
  then have "d \<in> {0, 1, 2, 3, 4, 5, 6, 7, 8, 9}" by auto
  then show ?thesis by (auto simp: digit_char_def)
qed

lemma str_nat_no_dot: "CHR ''.'' \<notin> set (str_nat n)"
proof (induction n rule: str_nat.induct)
  case (1 n)
  show ?case
  proof (cases "n < 10")
    case True
    then show ?thesis using digit_char_not_dot [of n] by (subst str_nat.simps) auto
  next
    case False
    have "digit_char (n mod 10) \<noteq> CHR ''.''" by (rule digit_char_not_dot) simp
    with False 1 show ?thesis by (subst str_nat.simps) auto
  qed
qed

lemma decimal_places_no_dot: "CHR ''.'' \<notin> set s \<Longrightarrow> decimal_places s = 0"
proof -
  assume "CHR ''.'' \<notin> set s"
  then have "dropWhile (\<lambda>c. c \<noteq> CHR ''.'') s = []"
    by (auto simp: dropWhile_eq_Nil_conv)
  then show ?thesis by (simp only: decimal_places_def list.sel list.size)
qed

lemma decimal_places_after_dot:
  "CHR ''.'' \<notin> set p \<Longrightarrow> decimal_places (p @ ''.'' @ r) = length r"
proof -
  assume "CHR ''.'' \<notin> set p"
  then have "dropWhile (\<lambda>c. c \<noteq> CHR ''.'') (p @ ''.'' @ r) = dropWhile (\<lambda>c. c \<noteq> CHR ''.'') (''.'' @ r)"
    by (intro dropWhile_append2) auto
  then show ?thesis by (simp add: decimal_places_def)
qed

lemma length_frac_digits: "1 \<le> length (frac_digits m) \<and> length (frac_digits m) \<le> 4"
proof -
  let ?ds = "[digit_char (m div 1000 mod 10), digit_char (m div 100 mod 10),
              digit_char (m div 10 mod 10), digit_char (m mod 10)]"
  let ?core = "rev (dropWhile (\<lambda>c. c = CHR ''0'') (rev ?ds))"
  have "length (dropWhile (\<lambda>c. c = CHR ''0'') (rev ?ds)) \<le> length (rev ?ds)"
    by (rule length_dropWhile_le)
  then have le: "length ?core \<le> 4" by simp
  have "frac_digits m = (if ?core = [] then ''0'' else ?core)"
    by (simp add: frac_digits_def Let_def)
  with le show ?thesis by (cases "?core = []") (auto simp: Suc_le_eq)
qed

text \<open>The text of a rounded float of moderate size exists and has one to four decimals.\<close>

lemma float_repr_abs_rounded:
  assumes "\<bar>py_round y 4\<bar> < 10 ^ 11"
  shows "\<exists>s. float_repr_abs (py_round y 4) = Some s \<and> 1 \<le> decimal_places s \<and> decimal_places s \<le> 4"
proof -
  let ?x = "py_round y 4"
  let ?k = "\<lfloor>?x * 10000\<rfloor>"
  let ?a = "nat \<bar>?k\<bar>"
  let ?s = "str_nat (?a div 10000) @ ''.'' @ frac_digits (?a mod 10000)"
  have "?x * 10000 = of_int (round_half_even (y * 10000))"
    by (simp add: py_round_4_multiple)
  then have "of_int ?k = ?x * 10000" by simp
  with assms have "float_repr_abs ?x = Some ?s"
    by (simp add: float_repr_abs_def Let_def)
  moreover have "decimal_places ?s = length (frac_digits (?a mod 10000))"
    by (rule decimal_places_after_dot) (rule str_nat_no_dot)
  ultimately show ?thesis using length_frac_digits [of "?a mod 10000"] by simp
qed

lemma numeric_tokens_kinds:
  "tok \<in> set (numeric_tokens j) \<Longrightarrow>
     (\<exists>i. tok = Some (str_nat i)) \<or> (\<exists>x\<in>set (json_floats j). tok = float_repr_abs x)"
  by (induction j rule: numeric_tokens.induct) auto

lemma export_float_text:
  assumes "x \<in> set (json_floats (export_data h obj))" and "\<bar>x\<bar> < 10 ^ 11"
  shows "\<exists>s. float_repr_abs x = Some s \<and> 1 \<le> decimal_places s \<and> decimal_places s \<le> 4"
proof -
  from floats_export_data [OF assms(1)] obtain y where "x = py_round y 4" by blast
  with assms(2) float_repr_abs_rounded [of y] show ?thesis by simp
qed

lemma export_token_text:
  assumes "tok \<in> set (numeric_tokens (export_data h obj))"
      and "\<forall>x\<in>set (json_floats (export_data h obj)). \<bar>x\<bar> < 10 ^ 11"
  shows "\<exists>s. tok = Some s \<and> decimal_places s \<le> 4"
proof -
  from numeric_tokens_kinds [OF assms(1)]
  consider i where "tok = Some (str_nat i)"
    | x where "x \<in> set (json_floats (export_data h obj))" "tok = float_repr_abs x" by blast
  then show ?thesis
  proof cases
    case 1
    then show ?thesis by (simp add: decimal_places_no_dot str_nat_no_dot)
  next
    case 2
    with assms(2) export_float_text [of x h obj] show ?thesis by auto
  qed
qed

text \<open>
  C5, as the code has it. When the file can be opened, it holds the record of the object;
  its \<^verbatim>\<open>"v"\<close>, \<^verbatim>\<open>"e"\<close> and \<^verbatim>\<open>"f"\<close> arrays have as many entries as the mesh has vertices,
  edges and faces. Where every float of the record is below \<open>10\<^sup>1\<^sup>1\<close> in magnitude,
  no number of the text has more than 4 decimal places, and every float has at least one.
\<close>

theorem export_to_json_counts_and_decimals:
  assumes "open_ok h path"
      and "\<forall>x\<in>set (json_floats (export_data h obj)). \<bar>x\<bar> < 10 ^ 11"
  shows "fst (export_to_json h obj path w) = Return () \<and>
    (\<exists>d. files (snd (export_to_json h obj path w)) path = Some (Json_text d) \<and>
      json_len (json_get d ''v'') = Some (length (vertices (data obj))) \<and>
      json_len (json_get d ''e'') = Some (length (edges (data obj))) \<and>
      json_len (json_get d ''f'') = Some (length (polygons (data obj))) \<and>
      (\<forall>tok\<in>set (numeric_tokens d). \<exists>s. tok = Some s \<and> decimal_places s \<le> 4) \<and>
      (\<forall>x\<in>set (json_floats d).
         \<exists>s. float_repr_abs x = Some s \<and> 1 \<le> decimal_places s \<and> decimal_places s \<le> 4))"
proof -
  let ?d = "export_data h obj"
  have w: "fst (export_to_json h obj path w) = Return ()"
          "files (snd (export_to_json h obj path w)) path = Some (Json_text ?d)"
    using export_to_json_writes [OF assms(1)] by simp_all
  have n: "json_len (json_get ?d ''v'') = Some (length (vertices (data obj)))"
          "json_len (json_get ?d ''e'') = Some (length (edges (data obj)))"
          "json_len (json_get ?d ''f'') = Some (length (polygons (data obj)))"
    by (simp_all add: export_data_eq json_get_def json_len_def)
  have t: "\<forall>tok\<in>set (numeric_tokens ?d). \<exists>s. tok = Some s \<and> decimal_places s \<le> 4"
    using export_token_text assms(2) by blast
  have f: "\<forall>x\<in>set (json_floats ?d).
         \<exists>s. float_repr_abs x = Some s \<and> 1 \<le> decimal_places s \<and> decimal_places s \<le> 4"
    using export_float_text assms(2) by blast
  from w n t f show ?thesis by blast
qed

lemma float_repr_abs_examples:
  "float_repr_abs 0 = Some ''0.0''" "float_repr_abs 1 = Some ''1.0''"
  "float_repr_abs 2 = Some ''2.0''" "float_repr_abs 3 = Some ''3.0''"
  "float_repr_abs (10312 / 10000) = Some ''1.0312''" "float_repr_abs (938 / 10000) = Some ''0.0938''"
  "float_repr_abs (625 / 10000) = Some ''0.0625''"
  by (simp_all add: float_repr_abs_def frac_digits_def Let_def str_nat.simps digit_char_def)

lemma str_nat_examples: "str_nat 0 = ''0''" "str_nat 1 = ''1''" "str_nat 2 = ''2''"
  by (simp_all add: str_nat.simps digit_char_def)

lemma demo_numeric_tokens:
  "numeric_tokens (export_data demo_host demo_placed_obj) =
     [Some ''1.0'', Some ''0.0'', Some ''0.0'', Some ''0.0'', Some ''0.0'', Some ''0.0'',
      Some ''2.0'', Some ''2.0'', Some ''2.0'',
      Some ''1.0'', Some ''0.0'', Some ''0.0'', Some ''3.0'', Some ''0.0'', Some ''0.0'',
      Some ''1.0'', Some ''2.0'', Some ''0.0'',
      Some ''1.0312'', Some ''0.0938'', Some ''0.0625'',
      Some ''0'', Some ''1'', Some ''1'', Some ''2'', Some ''2'', Some ''0'',
      Some ''0'', Some ''1'', Some ''2'']"
  by (simp add: demo_export_data float_repr_abs_examples [simplified] str_nat_examples [simplified])

lemma demo_json_floats:
  "json_floats (export_data demo_host demo_placed_obj) =
     [1, 0, 0, 0, 0, 0, 2, 2, 2, 1, 0, 0, 3, 0, 0, 1, 2, 0, 10312 / 10000, 938 / 10000, 625 / 10000]"
  by (simp add: demo_export_data)

theorem export_to_json_counts_and_decimals_witness:
  "open_ok demo_host ''out/a/a.json'' \<and>
   json_floats (export_data demo_host demo_placed_obj) =
     [1, 0, 0, 0, 0, 0, 2, 2, 2, 1, 0, 0, 3, 0, 0, 1, 2, 0, 10312 / 10000, 938 / 10000, 625 / 10000] \<and>
   fst (export_to_json demo_host demo_placed_obj ''out/a/a.json'' demo_world) = Return () \<and>
   (\<exists>d. files (snd (export_to_json demo_host demo_placed_obj ''out/a/a.json'' demo_world)) ''out/a/a.json''
          = Some (Json_text d) \<and>
        json_len (json_get d ''v'') = Some 4 \<and>
        json_len (json_get d ''e'') = Some 3 \<and>
        json_len (json_get d ''f'') = Some 1 \<and>
        Some ''1.0312'' \<in> set (numeric_tokens d) \<and>
        float_repr_abs (10312 / 10000) = Some ''1.0312'' \<and>
        1 \<le> decimal_places ''1.0312'' \<and> decimal_places ''1.0312'' \<le> 4)"
proof -
  have a: "open_ok demo_host ''out/a/a.json''" by (simp add: demo_host_def)
  have b: "\<forall>x\<in>set (json_floats (export_data demo_host demo_placed_obj)). \<bar>x\<bar> < 10 ^ 11"
    by (simp add: demo_json_floats)
  from export_to_json_counts_and_decimals [OF a b, where w = demo_world]
  obtain d where r: "fst (export_to_json demo_host demo_placed_obj ''out/a/a.json'' demo_world) = Return ()"
    and d: "files (snd (export_to_json demo_host demo_placed_obj ''out/a/a.json'' demo_world)) ''out/a/a.json''
              = Some (Json_text d)"
    and n: "json_len (json_get d ''v'') = Some (length (vertices (data demo_placed_obj)))"
           "json_len (json_get d ''e'') = Some (length (edges (data demo_placed_obj)))"
           "json_len (json_get d ''f'') = Some (length (polygons (data demo_placed_obj)))"
    and f: "\<forall>x\<in>set (json_floats d).
         \<exists>s. float_repr_abs x = Some s \<and> 1 \<le> decimal_places s \<and> decimal_places s \<le> 4"
    by blast
  from d export_to_json_writes [OF a, of demo_placed_obj demo_world]
  have e: "d = export_data demo_host demo_placed_obj" by simp
  have c: "length (vertices (data demo_placed_obj)) = 4" "length (edges (data demo_placed_obj)) = 3"
          "length (polygons (data demo_placed_obj)) = 1"
    by (simp_all add: demo_placed_obj_def demo_obj_def demo_mesh_def)
  have m: "Some ''1.0312'' \<in> set (numeric_tokens d)" by (simp add: e demo_numeric_tokens)
  have "10312 / 10000 \<in> set (json_floats d)" by (simp add: e demo_json_floats)
  with f have "\<exists>s. float_repr_abs (10312 / 10000) = Some s \<and> 1 \<le> decimal_places s \<and> decimal_places s \<le> 4"
    by blast
  then have p: "1 \<le> decimal_places ''1.0312'' \<and> decimal_places ''1.0312'' \<le> 4"
    by (simp add: float_repr_abs_examples [simplified])
  from a r d n c m p show ?thesis
    by (auto simp: demo_json_floats float_repr_abs_examples [simplified])
qed

text \<open>
  C5 as stated fails: the file written for the sample object has floats with one decimal
  place, such as \<open>1.0\<close>, and integer indices with none.
\<close>

theorem export_to_json_decimals_counterexample:
  "fst (export_to_json demo_host demo_placed_obj ''out/a/a.json'' demo_world) = Return () \<and>
   files (snd (export_to_json demo_host demo_placed_obj ''out/a/a.json'' demo_world)) ''out/a/a.json''
     = Some (Json_text (export_data demo_host demo_placed_obj)) \<and>
   numeric_tokens (export_data demo_host demo_placed_obj) =
     [Some ''1.0'', Some ''0.0'', Some ''0.0'', Some ''0.0'', Some ''0.0'', Some ''0.0'',
      Some ''2.0'', Some ''2.0'', Some ''2.0'',
      Some ''1.0'', Some ''0.0'', Some ''0.0'', Some ''3.0'', Some ''0.0'', Some ''0.0'',
      Some ''1.0'', Some ''2.0'', Some ''0.0'',
      Some ''1.0312'', Some ''0.0938'', Some ''0.0625'',
      Some ''0'', Some ''1'', Some ''1'', Some ''2'', Some ''2'', Some ''0'',
      Some ''0'', Some ''1'', Some ''2''] \<and>
   decimal_places ''1.0'' = 1 \<and> decimal_places ''0'' = 0"
proof -
  have a: "open_ok demo_host ''out/a/a.json''" by (simp add: demo_host_def)
  show ?thesis
    using export_to_json_writes [OF a, of demo_placed_obj demo_world]
    by (simp add: demo_numeric_tokens decimal_places_def)
qed

end
